theory Spec2Isabelle
  imports Main "HOL-Library.AList"
begin

section \<open>Strings\<close>

text \<open>
  A JavaScript string is a sequence of UTF-16 code units; a code unit is modelled as a
  natural number, so that the en dash (U+2013) and the em dash (U+2014) of the title
  pattern are ordinary elements. \<open>js\<close> turns a literal of ASCII characters into such a
  string.
\<close>

type_synonym jsstring = "nat list"

definition js :: "string \<Rightarrow> jsstring" where
  "js cs = map of_char cs"

text \<open>
  \<open>String.prototype.toLowerCase\<close>, on the code units of Basic Latin and Latin-1: the
  letters A-Z and the capital letters U+00C0 .. U+00DE (the multiplication sign U+00D7
  apart) move up by 32. The case mappings of Unicode beyond U+00FF are not modelled:
  such code units are left as they are.
\<close>

definition lowerUnit :: "nat \<Rightarrow> nat" where
  "lowerUnit c =
     (if 65 \<le> c \<and> c \<le> 90 then c + 32
      else if 192 \<le> c \<and> c \<le> 222 \<and> c \<noteq> 215 then c + 32
      else c)"

definition toLowerCase :: "jsstring \<Rightarrow> jsstring" where
  "toLowerCase s = map lowerUnit s"

text \<open>\<open>hay.includes(needle)\<close>: the needle occurs in the haystack as a contiguous run.\<close>

fun includes_js :: "jsstring \<Rightarrow> jsstring \<Rightarrow> bool" where
  "includes_js [] needle = (needle = [])"
| "includes_js (h # hay) needle =
     (take (length needle) (h # hay) = needle \<or> includes_js hay needle)"

text \<open>
  The characters that \<open>\s\<close> matches and that \<open>trim\<close> strips: WhiteSpace and
  LineTerminator of ECMAScript.
\<close>

definition isSpace :: "nat \<Rightarrow> bool" where
  "isSpace c =
     (c = 9 \<or> c = 10 \<or> c = 11 \<or> c = 12 \<or> c = 13 \<or> c = 32 \<or> c = 160 \<or> c = 5760
      \<or> (8192 \<le> c \<and> c \<le> 8202) \<or> c = 8232 \<or> c = 8233 \<or> c = 8239 \<or> c = 8287
      \<or> c = 12288 \<or> c = 65279)"

text \<open>The characters that \<open>.\<close> does not match: the line terminators.\<close>

definition isLineTerminator :: "nat \<Rightarrow> bool" where
  "isLineTerminator c = (c = 10 \<or> c = 13 \<or> c = 8232 \<or> c = 8233)"

text \<open>\<open>\d\<close>: the ASCII digits.\<close>

definition isDigit :: "nat \<Rightarrow> bool" where
  "isDigit c = (48 \<le> c \<and> c \<le> 57)"

text \<open>The dash class of the pattern: hyphen-minus, en dash, em dash.\<close>

definition isDash :: "nat \<Rightarrow> bool" where
  "isDash c = (c = 45 \<or> c = 8211 \<or> c = 8212)"

definition trim :: "jsstring \<Rightarrow> jsstring" where
  "trim s = rev (dropWhile isSpace (rev (dropWhile isSpace s)))"

section \<open>NameNormalizer: extractAppName\<close>

text \<open>
  The pattern is \<^verbatim>\<open>/^(.*?)(?:\s[D]\s|\s\|\s|\s:|\s\d|$)/\<close>, where the class \<open>D\<close> holds the
  hyphen-minus, the en dash and the em dash. \<open>separatorAt\<close> is the part of the alternation that consumes input, tried at the
  head of the rest of the title; \<open>alternativeAt\<close> adds the last alternative, the end of
  the input.
\<close>

fun separatorAt :: "jsstring \<Rightarrow> bool" where
  "separatorAt (w # c # rest) =
     (isSpace w \<and>
        ((isDash c \<and> (case rest of [] \<Rightarrow> False | w' # _ \<Rightarrow> isSpace w'))
         \<or> (c = 124 \<and> (case rest of [] \<Rightarrow> False | w' # _ \<Rightarrow> isSpace w'))
         \<or> c = 58
         \<or> isDigit c))"
| "separatorAt _ = False"

definition alternativeAt :: "jsstring \<Rightarrow> bool" where
  "alternativeAt s = (separatorAt s \<or> s = [])"

text \<open>
  The lazy group \<open>(.*?)\<close> anchored at the start: the shortest prefix, free of line
  terminators, after which an alternative matches. \<open>None\<close> is the failed match
  (\<open>null\<close>).
\<close>

fun matchTitle :: "jsstring \<Rightarrow> jsstring option" where
  "matchTitle [] = Some []"
| "matchTitle (c # cs) =
     (if separatorAt (c # cs) then Some []
      else if isLineTerminator c then None
      else map_option ((#) c) (matchTitle cs))"

text \<open>
  \<^verbatim>\<open>if (!windowTitle) return '';\<close>
  \<^verbatim>\<open>return appNameMatches?.[1]?.trim() || windowTitle.trim();\<close>
  An empty trimmed group is falsy, so the whole trimmed title is returned for it.
\<close>

definition extractAppName :: "jsstring \<Rightarrow> jsstring" where
  "extractAppName windowTitle =
     (if windowTitle = [] then []
      else (case matchTitle windowTitle of
              None \<Rightarrow> trim windowTitle
            | Some g \<Rightarrow> (if trim g = [] then trim windowTitle else trim g)))"

section \<open>WhitelistMatcher: isAppInWhitelist\<close>

definition DEFAULT_WHITELIST_APPS :: "jsstring list" where
  "DEFAULT_WHITELIST_APPS =
     [js ''Electron'', js ''electron'', js ''Mindful Desktop Companion'', js ''chrome-devtools'']"

text \<open>
  The test written out three times in the source (in \<open>trackAppUsage\<close>,
  \<open>isAppInWhitelist\<close> and \<open>notifyFocusModeViolation\<close>):
  \<^verbatim>\<open>DEFAULT_WHITELIST_APPS.some(defaultApp =>
     appName.toLowerCase().includes(defaultApp.toLowerCase()) ||
     defaultApp.toLowerCase().includes(appName.toLowerCase()))\<close>
\<close>

definition isSystemApp :: "jsstring \<Rightarrow> bool" where
  "isSystemApp appName =
     list_ex (\<lambda>defaultApp.
        includes_js (toLowerCase appName) (toLowerCase defaultApp) \<or>
        includes_js (toLowerCase defaultApp) (toLowerCase appName)) DEFAULT_WHITELIST_APPS"

definition isAppInWhitelist :: "jsstring \<Rightarrow> jsstring list \<Rightarrow> bool" where
  "isAppInWhitelist appName whitelist =
     (if appName = [] then False
      else if isSystemApp appName then True
      else (let normalizedAppName = toLowerCase appName in
            list_ex (\<lambda>whitelistedApp.
              (let normalizedWhitelistedApp = toLowerCase whitelistedApp in
               includes_js normalizedAppName normalizedWhitelistedApp \<or>
               includes_js normalizedWhitelistedApp normalizedAppName)) whitelist))"

section \<open>AppClassifier: determineAppType\<close>

datatype appType = productive | distraction | communication

definition determineAppType :: "jsstring \<Rightarrow> appType" where
  "determineAppType appName =
     (let appNameLower = toLowerCase appName in
      if includes_js appNameLower (js ''code'') \<or>
         includes_js appNameLower (js ''word'') \<or>
         includes_js appNameLower (js ''excel'') \<or>
         includes_js appNameLower (js ''powerpoint'') \<or>
         includes_js appNameLower (js ''outlook'') \<or>
         includes_js appNameLower (js ''terminal'') \<or>
         includes_js appNameLower (js ''studio'') \<or>
         includes_js appNameLower (js ''notepad'') \<or>
         includes_js appNameLower (js ''editor'')
      then productive
      else if includes_js appNameLower (js ''teams'') \<or>
         includes_js appNameLower (js ''slack'') \<or>
         includes_js appNameLower (js ''zoom'') \<or>
         includes_js appNameLower (js ''meet'') \<or>
         includes_js appNameLower (js ''mail'') \<or>
         includes_js appNameLower (js ''outlook'') \<or>
         includes_js appNameLower (js ''gmail'')
      then communication
      else if includes_js appNameLower (js ''youtube'') \<or>
         includes_js appNameLower (js ''netflix'') \<or>
         includes_js appNameLower (js ''facebook'') \<or>
         includes_js appNameLower (js ''instagram'') \<or>
         includes_js appNameLower (js ''twitter'') \<or>
         includes_js appNameLower (js ''game'') \<or>
         includes_js appNameLower (js ''reddit'') \<or>
         includes_js appNameLower (js ''tiktok'')
      then distraction
      else productive)"

section \<open>The service state\<close>

text \<open>
  The repository holds two variants of the class \<open>SystemTrayService\<close>: the one of
  \<^verbatim>\<open>src/services/SystemTrayService.ts\<close>, with the focus score and the distraction streak,
  and the user-isolated one (in \<^verbatim>\<open>src/hooks/use-toast-duration.ts\<close>), with per-user
  persistence and the set of processed notifications. One record holds the fields of
  both; the operations of the user-isolated variant carry the suffix \<open>_U\<close> where they
  differ, and each variant touches the fields of its own class only.

  A usage record; \<open>sessionStart\<close> exists in the user-isolated variant only (\<open>None\<close>:
  the property is absent). The \<open>type\<close> is one of the three literals that
  \<open>determineAppType\<close> returns.
\<close>

record appData =
  time :: int
  type :: appType
  lastActiveTime :: int
  sessionStart :: "int option"

text \<open>An element of the arrays handed to listeners and written to storage:
  \<open>{name, time, type, lastActiveTime}\<close>.\<close>

type_synonym usageEntry = "jsstring \<times> int \<times> appType \<times> int"

text \<open>
  What the service does to the outside: calls of registered callbacks (a callback is
  named by a number), messages sent to the host over IPC, and events dispatched on the
  window. They are appended to the field \<open>effects\<close> in the order the code performs them.
  Callbacks are taken not to call back into the service.
\<close>

datatype effect =
    CallScreenTime nat int
  | CallFocusScore nat int int
  | CallAppUsage nat "usageEntry list"
  | CallFocusMode nat bool
  | CallMessage nat jsstring bool
  | SendNative jsstring jsstring "(jsstring \<times> int option) option"
  | SendTooltip jsstring
  | DispatchWindowChanged jsstring

text \<open>The object written to \<open>localStorage\<close> by \<open>persistUserData\<close>, as \<open>JSON.parse\<close>
  gives it back (integers, strings and booleans survive the round trip through JSON
  unchanged).\<close>

record savedData =
  saved_screenTimeToday :: int
  saved_appUsageData :: "usageEntry list"
  saved_focusModeWhitelist :: "jsstring list"
  saved_isFocusMode :: bool
  saved_dimInsteadOfBlock :: bool
  saved_timestamp :: int

text \<open>
  The object that \<open>persistData\<close> of the variant with the focus score writes under the
  key \<open>systemTrayData\<close>. The whitelist and the two flags are optional in the source
  (\<open>None\<close>: the property is missing).
\<close>

record persistedData =
  persisted_screenTimeToday :: int
  persisted_focusScore :: int
  persisted_distractionCount :: int
  persisted_appUsageData :: "usageEntry list"
  persisted_focusModeWhitelist :: "jsstring list option"
  persisted_isFocusMode :: "bool option"
  persisted_dimInsteadOfBlock :: "bool option"
  persisted_timestamp :: int

record service =
  lastActiveWindow :: "jsstring option"
  windowSwitches :: int
  switchTimer :: "int option"
  listeners :: "nat list"
  isDesktopApp :: bool
  hasWindow :: bool
  lastNotificationTime :: int
  notificationThrottleMap :: "(jsstring \<times> int) list"
  processedNotifications :: "jsstring set"
  screenTimeStart :: int
  screenTimeToday :: int
  lastScreenTimeUpdate :: int
  lastActivityTime :: int
  screenTimeListeners :: "nat list"
  appUsageListeners :: "nat list"
  appUsageData :: "(jsstring \<times> appData) list"
  userIdleTime :: int
  focusScore :: int
  distractionCount :: int
  focusScoreUpdateListeners :: "nat list"
  isFocusMode :: bool
  focusModeWhitelist :: "jsstring list"
  dimInsteadOfBlock :: bool
  focusModeListeners :: "nat list"
  recentSwitches :: int
  lastWindowSwitchTime :: int
  currentUserId :: "jsstring option"
  localStorage :: "jsstring \<Rightarrow> savedData option"
  systemTrayData :: "persistedData option"
  effects :: "effect list"

text \<open>
  \<open>switchTimer\<close> is the deadline of the pending timeout, if any. \<open>appUsageData\<close> and
  \<open>notificationThrottleMap\<close> are JavaScript \<open>Map\<close>s: association lists in insertion
  order, written with \<open>AList.update\<close> (a present key keeps its place, a new key goes
  to the end). \<open>hasWindow\<close> is \<^verbatim>\<open>typeof window !== 'undefined'\<close>. \<open>localStorage\<close> holds
  the items of the user-isolated variant, by key; \<open>systemTrayData\<close> is the item under the
  key of that name, the only one that the variant with the focus score reads and writes.
\<close>

definition switchThreshold :: int where "switchThreshold = 3"
definition switchTimeframe :: int where "switchTimeframe = 30000"
definition notificationCooldown :: int where "notificationCooldown = 180000"
definition notificationThrottleTime :: int where "notificationThrottleTime = 500"
definition notificationThrottleTime_U :: int where "notificationThrottleTime_U = 2000"
definition idleThreshold :: int where "idleThreshold = 60000"

definition emit :: "effect list \<Rightarrow> service \<Rightarrow> service" where
  "emit es s = s\<lparr>effects := effects s @ es\<rparr>"

section \<open>SubscriptionRegistry\<close>

definition appUsageArray :: "service \<Rightarrow> usageEntry list" where
  "appUsageArray s =
     map (\<lambda>(name, d). (name, time d, type d, lastActiveTime d)) (appUsageData s)"

definition notifyScreenTimeListeners :: "service \<Rightarrow> service" where
  "notifyScreenTimeListeners s =
     emit (map (\<lambda>listener. CallScreenTime listener (screenTimeToday s)) (screenTimeListeners s)) s"

definition notifyFocusScoreListeners :: "service \<Rightarrow> service" where
  "notifyFocusScoreListeners s =
     emit (map (\<lambda>listener. CallFocusScore listener (focusScore s) (distractionCount s))
             (focusScoreUpdateListeners s)) s"

definition notifyAppUsageListeners :: "service \<Rightarrow> service" where
  "notifyAppUsageListeners s =
     emit (map (\<lambda>listener. CallAppUsage listener (appUsageArray s)) (appUsageListeners s)) s"

definition notifyFocusModeListeners :: "service \<Rightarrow> service" where
  "notifyFocusModeListeners s =
     emit (map (\<lambda>listener. CallFocusMode listener (isFocusMode s)) (focusModeListeners s)) s"

definition addScreenTimeListener :: "service \<Rightarrow> nat \<Rightarrow> service" where
  "addScreenTimeListener s callback =
     (let s1 = s\<lparr>screenTimeListeners := screenTimeListeners s @ [callback]\<rparr>
      in emit [CallScreenTime callback (screenTimeToday s1)] s1)"

definition addFocusScoreListener :: "service \<Rightarrow> nat \<Rightarrow> service" where
  "addFocusScoreListener s callback =
     (let s1 = s\<lparr>focusScoreUpdateListeners := focusScoreUpdateListeners s @ [callback]\<rparr>
      in emit [CallFocusScore callback (focusScore s1) (distractionCount s1)] s1)"

definition addAppUsageListener :: "service \<Rightarrow> nat \<Rightarrow> service" where
  "addAppUsageListener s callback =
     (let s1 = s\<lparr>appUsageListeners := appUsageListeners s @ [callback]\<rparr>
      in emit [CallAppUsage callback (appUsageArray s1)] s1)"

definition addFocusModeListener :: "service \<Rightarrow> nat \<Rightarrow> service" where
  "addFocusModeListener s callback =
     (let s1 = s\<lparr>focusModeListeners := focusModeListeners s @ [callback]\<rparr>
      in emit [CallFocusMode callback (isFocusMode s1)] s1)"

definition addNotificationListener :: "service \<Rightarrow> nat \<Rightarrow> service" where
  "addNotificationListener s callback = s\<lparr>listeners := listeners s @ [callback]\<rparr>"

section \<open>ActivityClock and ScreenTimeAccumulator\<close>

text \<open>The callback of the 10-second interval of \<open>initializeScreenTimeTracking\<close>
  (the same in both variants).\<close>

definition idleCheck :: "service \<Rightarrow> int \<Rightarrow> service" where
  "idleCheck s now =
     (let timeSinceLastActivity = now - lastActivityTime s in
      if timeSinceLastActivity > idleThreshold
      then s\<lparr>userIdleTime := timeSinceLastActivity\<rparr>
      else s\<lparr>userIdleTime := 0\<rparr>)"

definition updateScreenTime :: "service \<Rightarrow> int \<Rightarrow> service" where
  "updateScreenTime s now =
     (let s1 = (if userIdleTime s < idleThreshold
                then (let timeElapsed = now - lastScreenTimeUpdate s in
                      notifyScreenTimeListeners
                        (s\<lparr>screenTimeToday := screenTimeToday s + timeElapsed\<rparr>))
                else s)
      in s1\<lparr>lastScreenTimeUpdate := now\<rparr>)"

definition resetDailyStats :: "service \<Rightarrow> service" where
  "resetDailyStats s =
     notifyAppUsageListeners (notifyFocusScoreListeners (notifyScreenTimeListeners
       (s\<lparr>screenTimeToday := 0, distractionCount := 0, focusScore := 100,
           appUsageData := []\<rparr>)))"

text \<open>\<open>getScreenTime\<close> returns the total and leaves the state that
  \<open>updateScreenTime\<close> produced.\<close>

definition getScreenTime :: "service \<Rightarrow> int \<Rightarrow> int \<times> service" where
  "getScreenTime s now = (let s1 = updateScreenTime s now in (screenTimeToday s1, s1))"

section \<open>WindowSwitchTracker\<close>

definition focusNeededMessage :: jsstring where
  "focusNeededMessage = js ''You seem distracted. Try focusing on one task at a time.''"

definition notifyFocusNeeded :: "service \<Rightarrow> service" where
  "notifyFocusNeeded s =
     emit ((if isDesktopApp s
            then [SendNative (js ''Focus Reminder'') focusNeededMessage None] else [])
           @ map (\<lambda>listener. CallMessage listener focusNeededMessage True) (listeners s)) s"

text \<open>
  \<open>handleWindowSwitch\<close>. The timeout is re-armed on every switch; its callback is
  \<open>switchTimerFired\<close>, which the host runs once the deadline has passed.
\<close>

definition handleWindowSwitch :: "service \<Rightarrow> jsstring \<Rightarrow> int \<Rightarrow> service" where
  "handleWindowSwitch s newWindow now =
     (if lastActiveWindow s = Some newWindow then s
      else
        (let s1 = s\<lparr>lastActiveWindow := Some newWindow,
                     windowSwitches := windowSwitches s + 1,
                     switchTimer := Some (now + switchTimeframe)\<rparr>
         in if windowSwitches s1 \<ge> switchThreshold
            then
              (let s2 = (if now - lastNotificationTime s1 > notificationCooldown
                         then
                           (let s3 = (notifyFocusNeeded s1)\<lparr>lastNotificationTime := now\<rparr>;
                                s4 = s3\<lparr>distractionCount := distractionCount s3 + 1\<rparr>;
                                s5 = s4\<lparr>focusScore := max 0 (100 - distractionCount s4 * 5)\<rparr>
                            in notifyFocusScoreListeners s5)
                         else s1)
               in s2\<lparr>windowSwitches := 0\<rparr>)
            else s1))"

definition switchTimerFired :: "service \<Rightarrow> int \<Rightarrow> service" where
  "switchTimerFired s now =
     (case switchTimer s of
        None \<Rightarrow> s
      | Some deadline \<Rightarrow>
          (if deadline \<le> now then s\<lparr>windowSwitches := 0, switchTimer := None\<rparr> else s))"

definition handleRealWindowSwitch :: "service \<Rightarrow> jsstring \<Rightarrow> int \<Rightarrow> service" where
  "handleRealWindowSwitch s windowTitle now =
     (let s1 = (if now - lastWindowSwitchTime s > 2000
                then emit [DispatchWindowChanged windowTitle]
                       (s\<lparr>recentSwitches := recentSwitches s + 1,
                          lastWindowSwitchTime := now\<rparr>)
                else s)
      in handleWindowSwitch s1 windowTitle now)"

section \<open>FocusModeGuard and NotificationThrottler\<close>

definition violationMessage :: "jsstring \<Rightarrow> jsstring" where
  "violationMessage appName =
     js ''You're outside your focus zone. '' @ appName @ js '' is not in your whitelist.''"

text \<open>The notification id is \<^verbatim>\<open>focus-mode-violation-${appName}-${now}\<close>: the text up to
  the last hyphen, and the number.\<close>

definition notifyFocusModeViolation :: "service \<Rightarrow> jsstring \<Rightarrow> int \<Rightarrow> service" where
  "notifyFocusModeViolation s appName now =
     (if isSystemApp appName then s
      else
        (let lastNotified = (case map_of (notificationThrottleMap s) appName of
                               None \<Rightarrow> 0 | Some t \<Rightarrow> t)
         in if now - lastNotified < notificationThrottleTime then s
            else
              (let s1 = s\<lparr>notificationThrottleMap :=
                            AList.update appName now (notificationThrottleMap s)\<rparr>;
                   message = violationMessage appName
               in emit ((if isDesktopApp s1
                         then [SendNative (js ''Focus Mode Alert'') message
                                 (Some (js ''focus-mode-violation-'' @ appName @ js ''-'', Some now))]
                         else [])
                        @ map (\<lambda>listener. CallMessage listener message True) (listeners s1)) s1)))"

section \<open>AppUsageLedger: trackAppUsage\<close>

definition trackAppUsage :: "service \<Rightarrow> jsstring \<Rightarrow> jsstring \<Rightarrow> int \<Rightarrow> service" where
  "trackAppUsage s appTitle appOwner now =
     (let appName = (if appOwner \<noteq> js ''Unknown'' then appOwner else appTitle);
          coreAppName = extractAppName appName;
          appType = determineAppType coreAppName;
          s1 = (if map_of (appUsageData s) coreAppName = None
                then s\<lparr>appUsageData := AList.update coreAppName
                          \<lparr>time = 0, type = appType, lastActiveTime = now, sessionStart = None\<rparr>
                          (appUsageData s)\<rparr>
                else s);
          s2 = (if userIdleTime s1 < idleThreshold \<and> lastActiveWindow s1 = Some coreAppName
                then
                  (let timeElapsed = now - lastActivityTime s1 in
                   case map_of (appUsageData s1) coreAppName of
                     None \<Rightarrow> s1
                   | Some appData \<Rightarrow>
                       s1\<lparr>appUsageData := AList.update coreAppName
                            (appData\<lparr>time := time appData + timeElapsed, lastActiveTime := now\<rparr>)
                            (appUsageData s1)\<rparr>)
                else
                  (case map_of (appUsageData s1) coreAppName of
                     None \<Rightarrow> s1
                   | Some appData \<Rightarrow>
                       s1\<lparr>appUsageData := AList.update coreAppName
                            (appData\<lparr>lastActiveTime := now\<rparr>) (appUsageData s1)\<rparr>));
          s3 = (if isFocusMode s2 \<and> \<not> isSystemApp coreAppName \<and>
                   \<not> isAppInWhitelist coreAppName (focusModeWhitelist s2)
                then notifyFocusModeViolation s2 coreAppName now
                else s2)
      in notifyAppUsageListeners s3)"

text \<open>
  The handler of the host's \<open>active-window-changed\<close> message, for
  \<^verbatim>\<open>windowInfo = {title, owner?}\<close>; \<^verbatim>\<open>windowInfo.owner || "Unknown"\<close> is \<open>"Unknown"\<close>
  for a missing or empty owner. The calls of \<open>Date.now()\<close> within one handler run are
  taken to return one value.
\<close>

definition ownerOrUnknown :: "jsstring option \<Rightarrow> jsstring" where
  "ownerOrUnknown owner =
     (case owner of None \<Rightarrow> js ''Unknown''
      | Some ow \<Rightarrow> (if ow = [] then js ''Unknown'' else ow))"

definition activeWindowChanged :: "service \<Rightarrow> jsstring \<Rightarrow> jsstring option \<Rightarrow> int \<Rightarrow> service" where
  "activeWindowChanged s title owner now =
     (let s1 = handleRealWindowSwitch s title now;
          s2 = trackAppUsage s1 title (ownerOrUnknown owner) now
      in s2\<lparr>lastActivityTime := now\<rparr>)"

section \<open>The user-isolated variant\<close>

definition updateAppUsageTime :: "service \<Rightarrow> jsstring \<Rightarrow> int \<Rightarrow> int \<Rightarrow> service" where
  "updateAppUsageTime s appName timeElapsed now =
     (case map_of (appUsageData s) appName of
        None \<Rightarrow> s
      | Some appData \<Rightarrow>
          s\<lparr>appUsageData := AList.update appName
               (appData\<lparr>time := time appData + timeElapsed, lastActiveTime := now\<rparr>)
               (appUsageData s)\<rparr>)"

text \<open>\<^verbatim>\<open>if (this.lastActiveWindow)\<close> holds for a window name that is neither \<open>null\<close> nor
  empty.\<close>

definition updateScreenTime_U :: "service \<Rightarrow> int \<Rightarrow> service" where
  "updateScreenTime_U s now =
     (let s1 = (if userIdleTime s < idleThreshold
                then
                  (let timeElapsed = now - lastScreenTimeUpdate s;
                       s2 = s\<lparr>screenTimeToday := screenTimeToday s + timeElapsed\<rparr>;
                       s3 = (case lastActiveWindow s2 of
                               None \<Rightarrow> s2
                             | Some w \<Rightarrow> (if w = [] then s2
                                          else updateAppUsageTime s2 w timeElapsed now))
                   in notifyAppUsageListeners (notifyScreenTimeListeners s3))
                else s)
      in s1\<lparr>lastScreenTimeUpdate := now\<rparr>)"

definition getScreenTime_U :: "service \<Rightarrow> int \<Rightarrow> int \<times> service" where
  "getScreenTime_U s now = (let s1 = updateScreenTime_U s now in (screenTimeToday s1, s1))"

definition resetDailyStats_U :: "service \<Rightarrow> service" where
  "resetDailyStats_U s =
     notifyAppUsageListeners (notifyScreenTimeListeners
       (s\<lparr>screenTimeToday := 0, appUsageData := []\<rparr>))"

definition resetUserData :: "service \<Rightarrow> service" where
  "resetUserData s =
     notifyFocusModeListeners (notifyAppUsageListeners (notifyScreenTimeListeners
       (s\<lparr>screenTimeToday := 0, appUsageData := [], processedNotifications := {},
           notificationThrottleMap := [], focusModeWhitelist := DEFAULT_WHITELIST_APPS,
           isFocusMode := False, dimInsteadOfBlock := True\<rparr>)))"

subsection \<open>PersistenceGateway\<close>

definition userDataKey :: "jsstring \<Rightarrow> jsstring" where
  "userDataKey userId = js ''systemTrayData_'' @ userId"

text \<open>\<^verbatim>\<open>[...new Set(xs)]\<close>: the elements of \<open>xs\<close> without repetition, each at the
  place of its first occurrence.\<close>

definition uniqueInOrder :: "'a list \<Rightarrow> 'a list" where
  "uniqueInOrder xs = rev (remdups (rev xs))"

definition twentyFourHours :: int where
  "twentyFourHours = 24 * 60 * 60 * 1000"

text \<open>\<open>persistUserData\<close>: nothing is written without a window or without a user id
  (\<open>null\<close> or empty).\<close>

definition persistUserData :: "service \<Rightarrow> int \<Rightarrow> service" where
  "persistUserData s now =
     (case currentUserId s of
        None \<Rightarrow> s
      | Some userId \<Rightarrow>
          (if \<not> hasWindow s \<or> userId = [] then s
           else
             (let dataToSave =
                    \<lparr> saved_screenTimeToday = screenTimeToday s,
                      saved_appUsageData = appUsageArray s,
                      saved_focusModeWhitelist = focusModeWhitelist s,
                      saved_isFocusMode = isFocusMode s,
                      saved_dimInsteadOfBlock = dimInsteadOfBlock s,
                      saved_timestamp = now \<rparr>
              in s\<lparr>localStorage := (localStorage s)(userDataKey userId \<mapsto> dataToSave)\<rparr>)))"

text \<open>
  One round of the \<open>forEach\<close> of \<open>loadUserData\<close>: an entry is restored if its name is
  not empty (\<open>app.time != null\<close> and \<open>app.type\<close> hold for every entry that
  \<open>persistUserData\<close> wrote); \<^verbatim>\<open>app.lastActiveTime || now\<close> replaces a zero.
\<close>

definition restoreApp :: "int \<Rightarrow> usageEntry \<Rightarrow> (jsstring \<times> appData) list \<Rightarrow> (jsstring \<times> appData) list" where
  "restoreApp now app m =
     (case app of (name, t, ty, lastActive) \<Rightarrow>
        if name \<noteq> []
        then AList.update name
               \<lparr>time = t, type = ty,
                lastActiveTime = (if lastActive = 0 then now else lastActive),
                sessionStart = Some now\<rparr> m
        else m)"

definition loadUserData :: "service \<Rightarrow> jsstring \<Rightarrow> int \<Rightarrow> service" where
  "loadUserData s userId now =
     (if \<not> hasWindow s then s
      else
        (case localStorage s (userDataKey userId) of
           None \<Rightarrow> s
         | Some parsedData \<Rightarrow>
             (let timestamp = saved_timestamp parsedData in
              if now - timestamp < twentyFourHours
              then
                s\<lparr>screenTimeToday := saved_screenTimeToday parsedData,
                  focusModeWhitelist :=
                    uniqueInOrder (saved_focusModeWhitelist parsedData @ DEFAULT_WHITELIST_APPS),
                  isFocusMode := saved_isFocusMode parsedData,
                  dimInsteadOfBlock := saved_dimInsteadOfBlock parsedData,
                  appUsageData :=
                    fold (restoreApp now) (saved_appUsageData parsedData) (appUsageData s)\<rparr>
              else s)))"

definition setCurrentUser :: "service \<Rightarrow> jsstring \<Rightarrow> int \<Rightarrow> service" where
  "setCurrentUser s userId now =
     (if currentUserId s \<noteq> Some userId
      then loadUserData (resetUserData (s\<lparr>currentUserId := Some userId\<rparr>)) userId now
      else s)"

subsection \<open>Window switches and the ledger\<close>

definition handleWindowSwitch_U :: "service \<Rightarrow> jsstring \<Rightarrow> int \<Rightarrow> service" where
  "handleWindowSwitch_U s newWindow now =
     (if lastActiveWindow s = Some newWindow then s
      else s\<lparr>lastActiveWindow := Some newWindow,
             windowSwitches := windowSwitches s + 1,
             switchTimer := Some (now + switchTimeframe)\<rparr>)"

definition handleRealWindowSwitch_U :: "service \<Rightarrow> jsstring \<Rightarrow> int \<Rightarrow> service" where
  "handleRealWindowSwitch_U s windowTitle now =
     (let s1 = (if now - lastWindowSwitchTime s > 2000
                then emit [DispatchWindowChanged windowTitle]
                       (s\<lparr>recentSwitches := recentSwitches s + 1,
                          lastWindowSwitchTime := now\<rparr>)
                else s)
      in handleWindowSwitch_U s1 windowTitle now)"

definition notifyFocusModeViolation_U :: "service \<Rightarrow> jsstring \<Rightarrow> int \<Rightarrow> service" where
  "notifyFocusModeViolation_U s appName now =
     (if isSystemApp appName then s
      else
        (let notificationId = js ''focus-mode-violation-'' @ appName in
         if isAppInWhitelist appName (focusModeWhitelist s)
         then s\<lparr>processedNotifications := {}\<rparr>
         else if notificationId \<in> processedNotifications s then s
         else
           (let lastNotified = (case map_of (notificationThrottleMap s) appName of
                                  None \<Rightarrow> 0 | Some t \<Rightarrow> t)
            in if now - lastNotified < notificationThrottleTime_U then s
               else
                 (let s1 = s\<lparr>notificationThrottleMap :=
                               AList.update appName now (notificationThrottleMap s),
                             processedNotifications :=
                               insert notificationId (processedNotifications s)\<rparr>;
                      message = violationMessage appName
                  in emit ((if isDesktopApp s1
                            then [SendNative (js ''Focus Mode Alert'') message
                                    (Some (notificationId, None))]
                            else [])
                           @ map (\<lambda>listener. CallMessage listener message True) (listeners s1))
                       s1))))"

definition trackAppUsage_U :: "service \<Rightarrow> jsstring \<Rightarrow> jsstring \<Rightarrow> int \<Rightarrow> service" where
  "trackAppUsage_U s appTitle appOwner now =
     (let appName = (if appOwner \<noteq> js ''Unknown'' then appOwner else appTitle);
          coreAppName = extractAppName appName;
          appType = determineAppType coreAppName;
          s1 = (case map_of (appUsageData s) coreAppName of
                  None \<Rightarrow>
                    s\<lparr>appUsageData := AList.update coreAppName
                         \<lparr>time = 0, type = appType, lastActiveTime = now,
                          sessionStart = Some now\<rparr> (appUsageData s)\<rparr>
                | Some appData \<Rightarrow>
                    s\<lparr>appUsageData := AList.update coreAppName
                         (appData\<lparr>lastActiveTime := now\<rparr>) (appUsageData s)\<rparr>);
          s2 = (if isFocusMode s1 \<and> \<not> isSystemApp coreAppName \<and>
                   \<not> isAppInWhitelist coreAppName (focusModeWhitelist s1)
                then notifyFocusModeViolation_U s1 coreAppName now
                else s1)
      in notifyAppUsageListeners s2)"

definition activeWindowChanged_U :: "service \<Rightarrow> jsstring \<Rightarrow> jsstring option \<Rightarrow> int \<Rightarrow> service" where
  "activeWindowChanged_U s title owner now =
     (let s1 = handleRealWindowSwitch_U s title now;
          s2 = trackAppUsage_U s1 title (ownerOrUnknown owner) now
      in s2\<lparr>lastActivityTime := now\<rparr>)"

section \<open>Persisted data and the constructor\<close>

text \<open>\<open>persistData\<close> of the variant with the focus score.\<close>

definition persistData :: "service \<Rightarrow> int \<Rightarrow> service" where
  "persistData s now =
     (if \<not> hasWindow s then s
      else
        (let dataToSave =
               \<lparr> persisted_screenTimeToday = screenTimeToday s,
                 persisted_focusScore = focusScore s,
                 persisted_distractionCount = distractionCount s,
                 persisted_appUsageData = appUsageArray s,
                 persisted_focusModeWhitelist = Some (focusModeWhitelist s),
                 persisted_isFocusMode = Some (isFocusMode s),
                 persisted_dimInsteadOfBlock = Some (dimInsteadOfBlock s),
                 persisted_timestamp = now \<rparr>
         in s\<lparr>systemTrayData := Some dataToSave\<rparr>))"

text \<open>One round of the \<open>forEach\<close> of \<open>loadPersistedData\<close>; the records of this variant
  have no session start.\<close>

definition restorePersistedApp ::
  "int \<Rightarrow> usageEntry \<Rightarrow> (jsstring \<times> appData) list \<Rightarrow> (jsstring \<times> appData) list" where
  "restorePersistedApp now app m =
     (case app of (name, t, ty, lastActive) \<Rightarrow>
        if name \<noteq> []
        then AList.update name
               \<lparr>time = t, type = ty,
                lastActiveTime = (if lastActive = 0 then now else lastActive),
                sessionStart = None\<rparr> m
        else m)"

text \<open>
  \<open>loadPersistedData\<close>. \<^verbatim>\<open>parsedData.focusScore || 100\<close> takes a stored score of zero for
  missing and yields 100; \<^verbatim>\<open>parsedData.screenTimeToday || 0\<close>,
  \<^verbatim>\<open>parsedData.distractionCount || 0\<close> and \<^verbatim>\<open>parsedData.timestamp || 0\<close> return the stored
  number. Data of 24 hours or more is removed from the storage.
\<close>

definition loadPersistedData :: "service \<Rightarrow> int \<Rightarrow> service" where
  "loadPersistedData s now =
     (if \<not> hasWindow s then s
      else
        (case systemTrayData s of
           None \<Rightarrow> s
         | Some parsedData \<Rightarrow>
             (let timestamp = persisted_timestamp parsedData in
              if now - timestamp < twentyFourHours
              then
                s\<lparr>screenTimeToday := persisted_screenTimeToday parsedData,
                  focusScore := (if persisted_focusScore parsedData = 0 then 100
                                 else persisted_focusScore parsedData),
                  distractionCount := persisted_distractionCount parsedData,
                  focusModeWhitelist :=
                    (case persisted_focusModeWhitelist parsedData of
                       Some whitelist \<Rightarrow> uniqueInOrder (whitelist @ DEFAULT_WHITELIST_APPS)
                     | None \<Rightarrow> DEFAULT_WHITELIST_APPS),
                  isFocusMode :=
                    (case persisted_isFocusMode parsedData of
                       Some active \<Rightarrow> active | None \<Rightarrow> isFocusMode s),
                  dimInsteadOfBlock :=
                    (case persisted_dimInsteadOfBlock parsedData of
                       Some dim \<Rightarrow> dim | None \<Rightarrow> dimInsteadOfBlock s),
                  appUsageData :=
                    fold (restorePersistedApp now) (persisted_appUsageData parsedData)
                      (appUsageData s)\<rparr>
              else s\<lparr>systemTrayData := None\<rparr>)))"

text \<open>The field initialisers of the class, in a browser window, for a storage that
  holds \<open>stored\<close> under the key \<open>systemTrayData\<close> and nothing else.\<close>

definition initialFields :: "bool \<Rightarrow> persistedData option \<Rightarrow> service" where
  "initialFields desktop stored =
     \<lparr> lastActiveWindow = None, windowSwitches = 0, switchTimer = None, listeners = [],
       isDesktopApp = desktop, hasWindow = True, lastNotificationTime = 0,
       notificationThrottleMap = [], processedNotifications = {},
       screenTimeStart = 0, screenTimeToday = 0, lastScreenTimeUpdate = 0,
       lastActivityTime = 0, screenTimeListeners = [], appUsageListeners = [],
       appUsageData = [], userIdleTime = 0, focusScore = 100, distractionCount = 0,
       focusScoreUpdateListeners = [], isFocusMode = False, focusModeWhitelist = [],
       dimInsteadOfBlock = True, focusModeListeners = [], recentSwitches = 0,
       lastWindowSwitchTime = 0, currentUserId = None, localStorage = (\<lambda>_. None),
       systemTrayData = stored, effects = [] \<rparr>"

text \<open>The assignments of \<open>initializeScreenTimeTracking\<close>; the intervals it starts are
  the events of a run.\<close>

definition initializeScreenTimeTracking :: "service \<Rightarrow> int \<Rightarrow> service" where
  "initializeScreenTimeTracking s now =
     s\<lparr>screenTimeStart := now, lastActivityTime := now, lastScreenTimeUpdate := now\<rparr>"

text \<open>
  The constructor of the variant with the focus score, run at time \<open>now\<close>:
  \<open>loadPersistedData\<close>, then \<open>initializeScreenTimeTracking\<close>.
\<close>

definition createService :: "bool \<Rightarrow> persistedData option \<Rightarrow> int \<Rightarrow> service" where
  "createService desktop stored now =
     initializeScreenTimeTracking (loadPersistedData (initialFields desktop stored) now) now"

text \<open>
  The constructor on an empty storage. The constructor of the user-isolated variant
  loads nothing (it loads on \<open>setCurrentUser\<close>), so this is the state it leaves too.
\<close>

definition newService :: "bool \<Rightarrow> int \<Rightarrow> service" where
  "newService desktop now = createService desktop None now"

section \<open>Runs of the service\<close>

text \<open>
  The events that drive the service: a window-activity message of the host, the
  10-second idle check, the 60-second accumulation tick, the expiry of the switch
  timeout, the midnight reset and the change of user. Each carries the reading of the
  clock at which its handler runs. The variant with the focus score has no users:
  \<open>step\<close> ignores a change of user; \<open>step_U\<close> is the user-isolated variant.
\<close>

datatype event =
    Activity jsstring "jsstring option" int
  | IdleCheck int
  | Tick int
  | SwitchTimeout int
  | DailyReset int
  | SetUser jsstring int

fun step :: "service \<Rightarrow> event \<Rightarrow> service" where
  "step s (Activity title owner now) = activeWindowChanged s title owner now"
| "step s (IdleCheck now) = idleCheck s now"
| "step s (Tick now) = updateScreenTime s now"
| "step s (SwitchTimeout now) = switchTimerFired s now"
| "step s (DailyReset now) = resetDailyStats s"
| "step s (SetUser userId now) = s"

fun step_U :: "service \<Rightarrow> event \<Rightarrow> service" where
  "step_U s (Activity title owner now) = activeWindowChanged_U s title owner now"
| "step_U s (IdleCheck now) = idleCheck s now"
| "step_U s (Tick now) = updateScreenTime_U s now"
| "step_U s (SwitchTimeout now) = switchTimerFired s now"
| "step_U s (DailyReset now) = resetDailyStats_U s"
| "step_U s (SetUser userId now) = setCurrentUser s userId now"

fun clock :: "event \<Rightarrow> int" where
  "clock (Activity title owner now) = now"
| "clock (IdleCheck now) = now"
| "clock (Tick now) = now"
| "clock (SwitchTimeout now) = now"
| "clock (DailyReset now) = now"
| "clock (SetUser userId now) = now"

fun isReset :: "event \<Rightarrow> bool" where
  "isReset (DailyReset now) = True"
| "isReset (SetUser userId now) = True"
| "isReset _ = False"

fun isTick :: "event \<Rightarrow> bool" where
  "isTick (Tick now) = True"
| "isTick _ = False"

text \<open>The states a run goes through, the first one included.\<close>

fun states :: "(service \<Rightarrow> event \<Rightarrow> service) \<Rightarrow> service \<Rightarrow> event list \<Rightarrow> service list" where
  "states f s [] = [s]"
| "states f s (e # es) = s # states f (f s e) es"

text \<open>The clock does not run backwards: the readings of a run do not decrease, from
  \<open>t\<close> on.\<close>

fun clockFrom :: "int \<Rightarrow> event list \<Rightarrow> bool" where
  "clockFrom t [] = True"
| "clockFrom t (e # es) = (t \<le> clock e \<and> clockFrom (clock e) es)"

section \<open>Notions used to state the properties\<close>

text \<open>\<open>a\<close> contains \<open>b\<close>, the case of letters ignored.\<close>

definition containsIgnoringCase :: "jsstring \<Rightarrow> jsstring \<Rightarrow> bool" where
  "containsIgnoringCase a b = (\<exists>ps ss. toLowerCase a = ps @ toLowerCase b @ ss)"

text \<open>The alerts among the effects: a native notification or a call of a message
  listener.\<close>

fun isAlert :: "effect \<Rightarrow> bool" where
  "isAlert (SendNative title body nid) = True"
| "isAlert (CallMessage listener message isFocusAlert) = True"
| "isAlert _ = False"

text \<open>The identity that \<open>trackAppUsage\<close> derives from a title and an owner.\<close>

definition derivedIdentity :: "jsstring \<Rightarrow> jsstring \<Rightarrow> jsstring" where
  "derivedIdentity appTitle appOwner =
     extractAppName (if appOwner \<noteq> js ''Unknown'' then appOwner else appTitle)"

text \<open>
  What one step of a run may do to the screen time: unless the event is a reset, the
  total does not decrease, and it grows only at a tick taken while the idle flag is
  false (\<open>userIdleTime < idleThreshold\<close> is the test of the code).
\<close>

definition screenTimeStep :: "service \<Rightarrow> event \<Rightarrow> service \<Rightarrow> bool" where
  "screenTimeStep s e s' =
     (isReset e \<or>
      (screenTimeToday s \<le> screenTimeToday s' \<and>
       (screenTimeToday s < screenTimeToday s' \<longrightarrow> isTick e \<and> userIdleTime s < idleThreshold)))"

text \<open>
  A run with two consecutive activity events 68 seconds apart (at 1000 and at 69000),
  the idle check every 10 seconds and the accumulation tick every 60 seconds.
\<close>

definition gapTrace :: "event list" where
  "gapTrace =
     [Activity (js ''Notes'') None 1000,
      IdleCheck 10000, IdleCheck 20000, IdleCheck 30000, IdleCheck 40000, IdleCheck 50000,
      IdleCheck 60000, Tick 60000,
      Activity (js ''Notes'') None 69000,
      IdleCheck 70000, IdleCheck 80000, IdleCheck 90000, IdleCheck 100000, IdleCheck 110000,
      IdleCheck 120000, Tick 120000]"

text \<open>
  The distraction-streak signal on the host's side is the native notification titled
  "Focus Reminder"; \<open>focusReminders\<close> counts the ones sent so far.
\<close>

fun isFocusReminder :: "effect \<Rightarrow> bool" where
  "isFocusReminder (SendNative title body nid) = (title = js ''Focus Reminder'')"
| "isFocusReminder _ = False"

definition focusReminders :: "service \<Rightarrow> nat" where
  "focusReminders s = length (filter isFocusReminder (effects s))"

text \<open>The clock readings of the steps of a run at which a distraction-streak signal
  is sent.\<close>

fun streakTimes :: "service \<Rightarrow> event list \<Rightarrow> int list" where
  "streakTimes s [] = []"
| "streakTimes s (e # es) =
     (if focusReminders s < focusReminders (step s e) then [clock e] else [])
     @ streakTimes (step s e) es"

text \<open>The focus score is the one that the distraction count gives.\<close>

definition scoreInvariant :: "service \<Rightarrow> bool" where
  "scoreInvariant s = (focusScore s = max 0 (100 - distractionCount s * 5))"

text \<open>A sequence of window switches, each with the clock reading at which it is
  handled.\<close>

fun handleWindowSwitches :: "service \<Rightarrow> (jsstring \<times> int) list \<Rightarrow> service" where
  "handleWindowSwitches s [] = s"
| "handleWindowSwitches s ((newWindow, now) # rest) =
     handleWindowSwitches (handleWindowSwitch s newWindow now) rest"

text \<open>The same for the user-isolated variant.\<close>

fun handleWindowSwitches_U :: "service \<Rightarrow> (jsstring \<times> int) list \<Rightarrow> service" where
  "handleWindowSwitches_U s [] = s"
| "handleWindowSwitches_U s ((newWindow, now) # rest) =
     handleWindowSwitches_U (handleWindowSwitch_U s newWindow now) rest"

text \<open>
  A service after twenty distraction signals (the score is 0, as the count gives it),
  and the service that the constructor builds at time 2000 from what \<open>persistData\<close>
  wrote for it at time 1000.
\<close>

definition exhaustedService :: service where
  "exhaustedService = (newService True 0)\<lparr>focusScore := 0, distractionCount := 20\<rparr>"

definition restartedService :: service where
  "restartedService = createService True (systemTrayData (persistData exhaustedService 1000)) 2000"

text \<open>
  A desktop service with one message listener, and a run of nine window changes: three
  within two seconds, three more right after (inside the cooldown), and three again
  200 seconds later.
\<close>

definition streakService :: service where
  "streakService = (newService True 0)\<lparr>listeners := [1]\<rparr>"

definition streakTrace :: "event list" where
  "streakTrace =
     [Activity (js ''A'') None 200000, Activity (js ''B'') None 201000,
      Activity (js ''C'') None 202000,
      Activity (js ''A'') None 203000, Activity (js ''B'') None 204000,
      Activity (js ''C'') None 205000,
      Activity (js ''A'') None 400000, Activity (js ''B'') None 401000,
      Activity (js ''C'') None 402000]"

text \<open>
  A usage record as \<open>loadUserData\<close> restores it at time \<open>now\<close>: the time and the type
  are kept, a last-active time of zero is replaced by \<open>now\<close>, and the session starts
  anew.
\<close>

definition restoredRecord :: "int \<Rightarrow> appData \<Rightarrow> appData" where
  "restoredRecord now d =
     d\<lparr>lastActiveTime := (if lastActiveTime d = 0 then now else lastActiveTime d),
       sessionStart := Some now\<rparr>"

text \<open>A service of the user "u1" with one usage record, a whitelist of its own and
  focus mode on; and the same with a usage record for the empty identity, as the
  activity event with an empty title leaves it.\<close>

definition savedService :: service where
  "savedService =
     (newService True 0)\<lparr>currentUserId := Some (js ''u1''), screenTimeToday := 5000,
        appUsageData := [(js ''Notes'', \<lparr>time = 4000, type = productive,
                            lastActiveTime = 1000, sessionStart = Some 500\<rparr>)],
        focusModeWhitelist := [js ''Notes''], isFocusMode := True,
        dimInsteadOfBlock := False\<rparr>"

definition untitledService :: service where
  "untitledService =
     activeWindowChanged_U (setCurrentUser (newService True 0) (js ''u1'') 0) [] None 1000"

section \<open>The fresh service\<close>

lemma newService_fields:
  "newService desktop now =
     \<lparr> lastActiveWindow = None, windowSwitches = 0, switchTimer = None, listeners = [],
       isDesktopApp = desktop, hasWindow = True, lastNotificationTime = 0,
       notificationThrottleMap = [], processedNotifications = {},
       screenTimeStart = now, screenTimeToday = 0, lastScreenTimeUpdate = now,
       lastActivityTime = now, screenTimeListeners = [], appUsageListeners = [],
       appUsageData = [], userIdleTime = 0, focusScore = 100, distractionCount = 0,
       focusScoreUpdateListeners = [], isFocusMode = False, focusModeWhitelist = [],
       dimInsteadOfBlock = True, focusModeListeners = [], recentSwitches = 0,
       lastWindowSwitchTime = 0, currentUserId = None, localStorage = (\<lambda>_. None),
       systemTrayData = None, effects = [] \<rparr>"
  by (simp add: newService_def createService_def loadPersistedData_def initialFields_def
      initializeScreenTimeTracking_def)

section \<open>The whitelist matcher\<close>

lemma includes_js_iff: "includes_js hay needle \<longleftrightarrow> (\<exists>ps ss. hay = ps @ needle @ ss)"
proof (induction hay)
  case Nil
  then show ?case by auto
next
  case (Cons h hay)
  have "take (length needle) (h # hay) = needle \<longleftrightarrow> (\<exists>ss. h # hay = needle @ ss)"
    by (metis append_eq_conv_conj append_take_drop_id)
  moreover have "(\<exists>ps ss. h # hay = ps @ needle @ ss) \<longleftrightarrow>
      (\<exists>ss. h # hay = needle @ ss) \<or> (\<exists>ps ss. hay = ps @ needle @ ss)"
  proof
    assume "\<exists>ps ss. h # hay = ps @ needle @ ss"
    then obtain ps ss where e: "h # hay = ps @ needle @ ss" by blast
    show "(\<exists>ss. h # hay = needle @ ss) \<or> (\<exists>ps ss. hay = ps @ needle @ ss)"
    proof (cases ps)
      case Nil
      with e show ?thesis by auto
    next
      case (Cons p ps')
      with e have "hay = ps' @ needle @ ss" by simp
      then show ?thesis by blast
    qed
  next
    assume "(\<exists>ss. h # hay = needle @ ss) \<or> (\<exists>ps ss. hay = ps @ needle @ ss)"
    then show "\<exists>ps ss. h # hay = ps @ needle @ ss"
    proof
      assume "\<exists>ss. h # hay = needle @ ss"
      then obtain ss where "h # hay = [] @ needle @ ss" by auto
      then show ?thesis by blast
    next
      assume "\<exists>ps ss. hay = ps @ needle @ ss"
      then obtain ps ss where "h # hay = (h # ps) @ needle @ ss" by auto
      then show ?thesis by blast
    qed
  qed
  ultimately show ?case using Cons.IH by simp
qed

lemma isSystemApp_iff:
  "isSystemApp a \<longleftrightarrow>
     (\<exists>e \<in> set DEFAULT_WHITELIST_APPS. containsIgnoringCase a e \<or> containsIgnoringCase e a)"
  by (simp add: isSystemApp_def list_ex_iff includes_js_iff containsIgnoringCase_def)

text \<open>
  C5. The whitelist test is the bidirectional substring test without regard to case:
  for an identity that is not empty, the result is true exactly when some entry of the
  default-exempt set or of the whitelist contains the identity or is contained in it;
  the empty identity is never allowed; \<open>isAllowed("VSCode", ["code"])\<close> and
  \<open>isAllowed("code", ["VSCode"])\<close> are both true.
\<close>

theorem isAppInWhitelist_bidirectional:
  "(isAppInWhitelist a w \<longleftrightarrow>
      a \<noteq> [] \<and> (\<exists>e \<in> set DEFAULT_WHITELIST_APPS \<union> set w.
                   containsIgnoringCase a e \<or> containsIgnoringCase e a))
   \<and> \<not> isAppInWhitelist [] w
   \<and> isAppInWhitelist (js ''VSCode'') [js ''code'']
   \<and> isAppInWhitelist (js ''code'') [js ''VSCode'']"
proof -
  have wl: "list_ex (\<lambda>x. includes_js (toLowerCase a) (toLowerCase x) \<or>
                         includes_js (toLowerCase x) (toLowerCase a)) w \<longleftrightarrow>
            (\<exists>e \<in> set w. containsIgnoringCase a e \<or> containsIgnoringCase e a)"
    by (simp add: list_ex_iff includes_js_iff containsIgnoringCase_def)
  have 1: "isAppInWhitelist a w \<longleftrightarrow>
      a \<noteq> [] \<and> (\<exists>e \<in> set DEFAULT_WHITELIST_APPS \<union> set w.
                   containsIgnoringCase a e \<or> containsIgnoringCase e a)"
    by (auto simp add: isAppInWhitelist_def Let_def wl isSystemApp_iff)
  have 2: "\<not> isAppInWhitelist [] w" by (simp add: isAppInWhitelist_def)
  have 3: "isAppInWhitelist (js ''VSCode'') [js ''code'']" by code_simp
  have 4: "isAppInWhitelist (js ''code'') [js ''VSCode'']" by code_simp
  from 1 2 3 4 show ?thesis by blast
qed


section \<open>The name normalizer\<close>

lemma matchTitle_first:
  "i \<le> length t \<Longrightarrow> alternativeAt (drop i t) \<Longrightarrow> \<forall>j<i. \<not> separatorAt (drop j t) \<Longrightarrow>
   \<forall>c\<in>set (take i t). \<not> isLineTerminator c \<Longrightarrow> matchTitle t = Some (take i t)"
proof (induction t arbitrary: i)
  case Nil
  then show ?case by simp
next
  case (Cons c cs)
  show ?case
  proof (cases i)
    case 0
    with Cons.prems(2) have "separatorAt (c # cs)" by (simp add: alternativeAt_def)
    with 0 show ?thesis by simp
  next
    case (Suc k)
    from Cons.prems(3) Suc have nosep: "\<not> separatorAt (c # cs)" by force
    from Cons.prems(4) Suc have nolt: "\<not> isLineTerminator c" by simp
    have "\<forall>j<k. \<not> separatorAt (drop j cs)"
    proof (intro allI impI)
      fix j assume "j < k"
      then have "Suc j < i" using Suc by simp
      with Cons.prems(3) have "\<not> separatorAt (drop (Suc j) (c # cs))" by blast
      then show "\<not> separatorAt (drop j cs)" by simp
    qed
    moreover from Cons.prems Suc have "k \<le> length cs" "alternativeAt (drop k cs)"
      "\<forall>c\<in>set (take k cs). \<not> isLineTerminator c" by simp_all
    ultimately have "matchTitle cs = Some (take k cs)" using Cons.IH by blast
    with nosep nolt Suc show ?thesis by simp
  qed
qed

lemma matchTitle_blocked:
  "i < length t \<Longrightarrow> separatorAt (drop i t) \<Longrightarrow> \<forall>j<i. \<not> separatorAt (drop j t) \<Longrightarrow>
   \<exists>c\<in>set (take i t). isLineTerminator c \<Longrightarrow> matchTitle t = None"
proof (induction t arbitrary: i)
  case Nil
  then show ?case by simp
next
  case (Cons c cs)
  show ?case
  proof (cases i)
    case 0
    with Cons.prems(4) show ?thesis by simp
  next
    case (Suc k)
    from Cons.prems(3) Suc have nosep: "\<not> separatorAt (c # cs)" by force
    show ?thesis
    proof (cases "isLineTerminator c")
      case True
      with nosep show ?thesis by simp
    next
      case False
      have "\<forall>j<k. \<not> separatorAt (drop j cs)"
      proof (intro allI impI)
        fix j assume "j < k"
        then have "Suc j < i" using Suc by simp
        with Cons.prems(3) have "\<not> separatorAt (drop (Suc j) (c # cs))" by blast
        then show "\<not> separatorAt (drop j cs)" by simp
      qed
      moreover from Cons.prems Suc False have "k < length cs" "separatorAt (drop k cs)"
        "\<exists>c\<in>set (take k cs). isLineTerminator c" by simp_all
      ultimately have "matchTitle cs = None" using Cons.IH by blast
      with nosep False show ?thesis by simp
    qed
  qed
qed

lemma matchTitle_no_separator:
  "\<forall>j<length t. \<not> separatorAt (drop j t) \<Longrightarrow> matchTitle t = None \<or> matchTitle t = Some t"
proof (induction t)
  case Nil
  then show ?case by simp
next
  case (Cons c cs)
  from Cons.prems have nosep: "\<not> separatorAt (c # cs)" by force
  have "\<forall>j<length cs. \<not> separatorAt (drop j cs)"
  proof (intro allI impI)
    fix j assume "j < length cs"
    then have "Suc j < length (c # cs)" by simp
    with Cons.prems have "\<not> separatorAt (drop (Suc j) (c # cs))" by blast
    then show "\<not> separatorAt (drop j cs)" by simp
  qed
  with Cons.IH have "matchTitle cs = None \<or> matchTitle cs = Some cs" by blast
  with nosep show ?case by auto
qed

lemma trim_Nil: "trim [] = []" by (simp add: trim_def)

lemmas eval_title = extractAppName_def js_def trim_def isSpace_def isDash_def isDigit_def
  isLineTerminator_def

text \<open>
  C7, as the code has it. The separators are: a dash (hyphen-minus, en dash or em dash)
  between two white-space characters, a pipe between two white-space characters, a
  white-space character followed by a colon, and a white-space character followed by a
  digit. The normalizer returns the trimmed leading segment up to the first separator;
  it returns the whole trimmed title when there is no separator, when the leading
  segment is empty after trimming, or when a line terminator stands before the first
  separator. The empty title gives the empty identity; "YouTube - Cat Videos" gives
  "YouTube" and "Visual Studio Code" gives itself.
\<close>

theorem extractAppName_leading_segment:
  "extractAppName [] = []
   \<and> ((\<forall>j<length t. \<not> separatorAt (drop j t)) \<longrightarrow> extractAppName t = trim t)
   \<and> (i < length t \<and> separatorAt (drop i t) \<and> (\<forall>j<i. \<not> separatorAt (drop j t)) \<and>
        (\<forall>c\<in>set (take i t). \<not> isLineTerminator c) \<and> trim (take i t) \<noteq> []
        \<longrightarrow> extractAppName t = trim (take i t))
   \<and> (i < length t \<and> separatorAt (drop i t) \<and> (\<forall>j<i. \<not> separatorAt (drop j t)) \<and>
        ((\<exists>c\<in>set (take i t). isLineTerminator c) \<or> trim (take i t) = [])
        \<longrightarrow> extractAppName t = trim t)
   \<and> extractAppName (js ''YouTube - Cat Videos'') = js ''YouTube''
   \<and> extractAppName (js ''Visual Studio Code'') = js ''Visual Studio Code''"
proof -
  have a: "extractAppName [] = []" by (simp add: extractAppName_def)
  have b: "extractAppName t = trim t" if "\<forall>j<length t. \<not> separatorAt (drop j t)"
    using matchTitle_no_separator[OF that]
    by (auto simp add: extractAppName_def trim_Nil)
  have c: "extractAppName t = trim (take i t)"
    if "i < length t" "separatorAt (drop i t)" "\<forall>j<i. \<not> separatorAt (drop j t)"
       "\<forall>c\<in>set (take i t). \<not> isLineTerminator c" "trim (take i t) \<noteq> []"
  proof -
    have "matchTitle t = Some (take i t)"
      using that by (intro matchTitle_first) (simp_all add: alternativeAt_def)
    with that show ?thesis by (auto simp add: extractAppName_def)
  qed
  have d: "extractAppName t = trim t"
    if "i < length t" "separatorAt (drop i t)" "\<forall>j<i. \<not> separatorAt (drop j t)"
       "(\<exists>c\<in>set (take i t). isLineTerminator c) \<or> trim (take i t) = []"
  proof (cases "\<exists>c\<in>set (take i t). isLineTerminator c")
    case True
    with that have "matchTitle t = None" by (intro matchTitle_blocked[of i]) simp_all
    then show ?thesis by (auto simp add: extractAppName_def trim_Nil)
  next
    case False
    then have "matchTitle t = Some (take i t)"
      using that by (intro matchTitle_first) (simp_all add: alternativeAt_def)
    moreover from False that have "trim (take i t) = []" by blast
    ultimately show ?thesis by (auto simp add: extractAppName_def trim_Nil)
  qed
  have e: "extractAppName (js ''YouTube - Cat Videos'') = js ''YouTube''"
    by (simp add: eval_title)
  have f: "extractAppName (js ''Visual Studio Code'') = js ''Visual Studio Code''"
    by (simp add: eval_title)
  from a b c d e f show ?thesis by blast
qed

lemma all_less_4: "(\<forall>j<4. P j) \<longleftrightarrow> P 0 \<and> P 1 \<and> P 2 \<and> P (3::nat)"
  by (auto simp add: numeral_eq_Suc less_Suc_eq)

theorem extractAppName_leading_segment_witness:
  "extractAppName (js ''Word 2016'') = trim (take 4 (js ''Word 2016''))
   \<and> extractAppName (js ''Notes'') = trim (js ''Notes'')
   \<and> extractAppName (js '' - Inbox'') = trim (js '' - Inbox'')"
proof -
  have h1: "4 < length (js ''Word 2016'') \<and> separatorAt (drop 4 (js ''Word 2016'')) \<and>
      (\<forall>j<4. \<not> separatorAt (drop j (js ''Word 2016''))) \<and>
      (\<forall>c\<in>set (take 4 (js ''Word 2016'')). \<not> isLineTerminator c) \<and>
      trim (take 4 (js ''Word 2016'')) \<noteq> []"
    by (simp add: js_def trim_def isSpace_def isDash_def isDigit_def isLineTerminator_def
        all_less_4)
  have 1: "extractAppName (js ''Word 2016'') = trim (take 4 (js ''Word 2016''))"
    using extractAppName_leading_segment[of "js ''Word 2016''" 4] h1 by blast
  have h2: "\<forall>j<length (js ''Notes''). \<not> separatorAt (drop j (js ''Notes''))"
    by (simp add: js_def isSpace_def isDash_def isDigit_def All_less_Suc)
  have 2: "extractAppName (js ''Notes'') = trim (js ''Notes'')"
    using extractAppName_leading_segment[of "js ''Notes''" 0] h2 by blast
  have h3: "0 < length (js '' - Inbox'') \<and> separatorAt (drop 0 (js '' - Inbox'')) \<and>
      (\<forall>j<0. \<not> separatorAt (drop j (js '' - Inbox''))) \<and>
      ((\<exists>c\<in>set (take 0 (js '' - Inbox'')). isLineTerminator c) \<or>
       trim (take 0 (js '' - Inbox'')) = [])"
    by (simp add: js_def trim_def isSpace_def isDash_def isDigit_def)
  have 3: "extractAppName (js '' - Inbox'') = trim (js '' - Inbox'')"
    using extractAppName_leading_segment[of "js '' - Inbox''" 0] h3 by blast
  from 1 2 3 show ?thesis by blast
qed

text \<open>
  C7 as the specification words it takes a colon or a digit alone for a separator. The
  code does not: the title "Foo: Bar" has a colon and "MP3 Player" has a digit, and
  both are returned whole, not cut to "Foo" and "MP".
\<close>

theorem extractAppName_colon_digit_counterexample:
  "extractAppName (js ''Foo: Bar'') = js ''Foo: Bar''
   \<and> extractAppName (js ''Foo: Bar'') \<noteq> js ''Foo''
   \<and> extractAppName (js ''MP3 Player'') = js ''MP3 Player''
   \<and> extractAppName (js ''MP3 Player'') \<noteq> js ''MP''"
  by (simp add: eval_title)

section \<open>Facts shared by the properties of the service\<close>

lemmas notify_defs = emit_def notifyScreenTimeListeners_def notifyFocusScoreListeners_def
  notifyAppUsageListeners_def notifyFocusModeListeners_def

lemma filter_isAlert_usage [simp]:
  "filter isAlert (map (\<lambda>listener. CallAppUsage listener a) ls) = []"
  by (induction ls) simp_all

lemma notifyFocusModeViolation_frame:
  "appUsageData (notifyFocusModeViolation s a now) = appUsageData s"
  "windowSwitches (notifyFocusModeViolation s a now) = windowSwitches s"
  "screenTimeToday (notifyFocusModeViolation s a now) = screenTimeToday s"
  "lastScreenTimeUpdate (notifyFocusModeViolation s a now) = lastScreenTimeUpdate s"
  "userIdleTime (notifyFocusModeViolation s a now) = userIdleTime s"
  by (simp_all add: notifyFocusModeViolation_def Let_def emit_def)

lemma notifyFocusModeViolation_U_frame:
  "appUsageData (notifyFocusModeViolation_U s a now) = appUsageData s"
  "windowSwitches (notifyFocusModeViolation_U s a now) = windowSwitches s"
  "screenTimeToday (notifyFocusModeViolation_U s a now) = screenTimeToday s"
  "lastScreenTimeUpdate (notifyFocusModeViolation_U s a now) = lastScreenTimeUpdate s"
  "userIdleTime (notifyFocusModeViolation_U s a now) = userIdleTime s"
  by (simp_all add: notifyFocusModeViolation_U_def Let_def emit_def)

lemma trackAppUsage_frame:
  "windowSwitches (trackAppUsage s t ow now) = windowSwitches s"
  "screenTimeToday (trackAppUsage s t ow now) = screenTimeToday s"
  "lastScreenTimeUpdate (trackAppUsage s t ow now) = lastScreenTimeUpdate s"
  "userIdleTime (trackAppUsage s t ow now) = userIdleTime s"
  by (simp_all add: trackAppUsage_def Let_def notify_defs notifyFocusModeViolation_frame
      split: option.splits)

lemma trackAppUsage_U_frame:
  "windowSwitches (trackAppUsage_U s t ow now) = windowSwitches s"
  "screenTimeToday (trackAppUsage_U s t ow now) = screenTimeToday s"
  "lastScreenTimeUpdate (trackAppUsage_U s t ow now) = lastScreenTimeUpdate s"
  "userIdleTime (trackAppUsage_U s t ow now) = userIdleTime s"
  by (simp_all add: trackAppUsage_U_def Let_def notify_defs notifyFocusModeViolation_U_frame
      split: option.splits)

lemma trackAppUsage_record:
  "\<exists>d. map_of (appUsageData (trackAppUsage s t ow now)) (derivedIdentity t ow) = Some d
       \<and> lastActiveTime d = now"
  by (cases "ow = js ''Unknown''")
    (simp_all add: trackAppUsage_def derivedIdentity_def Let_def notify_defs
      notifyFocusModeViolation_frame update_conv' split: option.splits)

lemma trackAppUsage_U_record:
  "\<exists>d. map_of (appUsageData (trackAppUsage_U s t ow now)) (derivedIdentity t ow) = Some d
       \<and> lastActiveTime d = now"
  by (cases "ow = js ''Unknown''")
    (simp_all add: trackAppUsage_U_def derivedIdentity_def Let_def notify_defs
      notifyFocusModeViolation_U_frame update_conv' split: option.splits)

lemma handleRealWindowSwitch_counter:
  "lastActiveWindow s \<noteq> Some title \<Longrightarrow>
   windowSwitches (handleRealWindowSwitch s title now)
     = (if windowSwitches s + 1 \<ge> switchThreshold then 0 else windowSwitches s + 1)"
  by (simp add: handleRealWindowSwitch_def handleWindowSwitch_def Let_def notify_defs
      notifyFocusNeeded_def)

lemma handleRealWindowSwitch_U_counter:
  "lastActiveWindow s \<noteq> Some title \<Longrightarrow>
   windowSwitches (handleRealWindowSwitch_U s title now) = windowSwitches s + 1"
  by (simp add: handleRealWindowSwitch_U_def handleWindowSwitch_U_def Let_def emit_def)

lemma determineAppType_empty: "determineAppType [] = productive"
  by (simp add: determineAppType_def toLowerCase_def js_def)

lemma isSystemApp_empty: "isSystemApp []"
  by (simp add: isSystemApp_def DEFAULT_WHITELIST_APPS_def toLowerCase_def js_def)

lemma activeWindowChanged_empty_fresh:
  "activeWindowChanged (newService True 0) [] None 1000
     = (newService True 0)\<lparr>lastActiveWindow := Some [], windowSwitches := 1,
          switchTimer := Some 31000, lastActivityTime := 1000,
          appUsageData := [([], \<lparr>time = 1000, type = productive, lastActiveTime = 1000,
                                 sessionStart = None\<rparr>)]\<rparr>"
  by (simp add: activeWindowChanged_def handleRealWindowSwitch_def handleWindowSwitch_def
      trackAppUsage_def ownerOrUnknown_def extractAppName_def determineAppType_empty
      isSystemApp_empty Let_def notify_defs newService_fields switchThreshold_def
      switchTimeframe_def idleThreshold_def)

lemma activeWindowChanged_U_empty_fresh:
  "activeWindowChanged_U (newService True 0) [] None 1000
     = (newService True 0)\<lparr>lastActiveWindow := Some [], windowSwitches := 1,
          switchTimer := Some 31000, lastActivityTime := 1000,
          appUsageData := [([], \<lparr>time = 0, type = productive, lastActiveTime = 1000,
                                 sessionStart = Some 1000\<rparr>)]\<rparr>"
  by (simp add: activeWindowChanged_U_def handleRealWindowSwitch_U_def handleWindowSwitch_U_def
      trackAppUsage_U_def ownerOrUnknown_def extractAppName_def determineAppType_empty
      isSystemApp_empty Let_def notify_defs newService_fields
      switchTimeframe_def idleThreshold_def)

lemma activeWindowChanged_U_notes_fresh:
  "activeWindowChanged_U (newService True 0) (js ''Notes'') None 1000
     = (newService True 0)\<lparr>lastActiveWindow := Some (js ''Notes''), windowSwitches := 1,
          switchTimer := Some 31000, lastActivityTime := 1000,
          appUsageData := [(js ''Notes'', \<lparr>time = 0, type = productive,
                              lastActiveTime = 1000, sessionStart = Some 1000\<rparr>)]\<rparr>"
proof -
  have 1: "extractAppName (js ''Notes'') = js ''Notes''" by (simp add: eval_title)
  have 2: "determineAppType (js ''Notes'') = productive" by code_simp
  have 3: "js ''Notes'' \<noteq> js ''Unknown''" by (simp add: js_def)
  show ?thesis
    by (simp add: activeWindowChanged_U_def handleRealWindowSwitch_U_def
        handleWindowSwitch_U_def trackAppUsage_U_def ownerOrUnknown_def 1 2 3
        Let_def notify_defs newService_fields switchTimeframe_def)
qed

section \<open>Default-exempt identities\<close>

text \<open>
  C4. For an identity that, the case of letters ignored, contains an entry of the
  default-exempt set or is contained in one, no focus-mode violation is emitted:
  \<open>notifyFocusModeViolation\<close> leaves the state as it is, and \<open>trackAppUsage\<close>, its only
  caller, adds no alert to the effects, whatever the whitelist (also the empty one) and
  with focus mode on or off. Both variants.
\<close>

theorem default_exempt_never_violation:
  assumes "\<exists>e \<in> set DEFAULT_WHITELIST_APPS. containsIgnoringCase a e \<or> containsIgnoringCase e a"
  shows "notifyFocusModeViolation s a now = s
       \<and> notifyFocusModeViolation_U s a now = s
       \<and> (derivedIdentity appTitle appOwner = a \<longrightarrow>
            filter isAlert (effects (trackAppUsage s appTitle appOwner now))
              = filter isAlert (effects s)
          \<and> filter isAlert (effects (trackAppUsage_U s appTitle appOwner now))
              = filter isAlert (effects s))"
proof -
  from assms have sys: "isSystemApp a" by (simp add: isSystemApp_iff)
  have 1: "notifyFocusModeViolation s a now = s"
    using sys by (simp add: notifyFocusModeViolation_def)
  have 2: "notifyFocusModeViolation_U s a now = s"
    using sys by (simp add: notifyFocusModeViolation_U_def)
  have 3: "filter isAlert (effects (trackAppUsage s appTitle appOwner now))
              = filter isAlert (effects s)" if "derivedIdentity appTitle appOwner = a"
    using sys that
    by (simp add: trackAppUsage_def derivedIdentity_def Let_def notify_defs
        split: option.splits)
  have 4: "filter isAlert (effects (trackAppUsage_U s appTitle appOwner now))
              = filter isAlert (effects s)" if "derivedIdentity appTitle appOwner = a"
    using sys that
    by (simp add: trackAppUsage_U_def derivedIdentity_def Let_def notify_defs
        split: option.splits)
  from 1 2 3 4 show ?thesis by blast
qed


theorem default_exempt_never_violation_witness:
  "notifyFocusModeViolation ((newService True 0)\<lparr>isFocusMode := True, listeners := [1]\<rparr>)
       (js ''Electron Helper'') 5000
     = (newService True 0)\<lparr>isFocusMode := True, listeners := [1]\<rparr>
   \<and> filter isAlert (effects (trackAppUsage
         ((newService True 0)\<lparr>isFocusMode := True, listeners := [1]\<rparr>)
         (js ''Electron Helper'') (js ''Unknown'') 5000)) = []
   \<and> filter isAlert (effects (trackAppUsage
         ((newService True 0)\<lparr>isFocusMode := True, listeners := [1]\<rparr>)
         (js ''YouTube'') (js ''Unknown'') 5000)) \<noteq> []"
proof -
  have "isSystemApp (js ''Electron Helper'')" by code_simp
  then have h: "\<exists>e \<in> set DEFAULT_WHITELIST_APPS.
      containsIgnoringCase (js ''Electron Helper'') e \<or>
      containsIgnoringCase e (js ''Electron Helper'')"
    by (simp only: isSystemApp_iff)
  have d: "derivedIdentity (js ''Electron Helper'') (js ''Unknown'') = js ''Electron Helper''"
    by (simp add: derivedIdentity_def eval_title)
  have e: "effects ((newService True 0)\<lparr>isFocusMode := True, listeners := [1]\<rparr>) = []"
    by (simp add: newService_fields)
  have y1: "extractAppName (js ''YouTube'') = js ''YouTube''" by (simp add: eval_title)
  have y2: "\<not> isSystemApp (js ''YouTube'')" by code_simp
  have y3: "\<not> isAppInWhitelist (js ''YouTube'') []" by code_simp
  have y4: "js ''YouTube'' \<noteq> js ''Unknown''" by (simp add: js_def)
  have y: "filter isAlert (effects (trackAppUsage
         ((newService True 0)\<lparr>isFocusMode := True, listeners := [1]\<rparr>)
         (js ''YouTube'') (js ''Unknown'') 5000)) \<noteq> []"
    by (simp add: trackAppUsage_def Let_def y1 y2 y3 y4 newService_fields notify_defs
        notifyFocusModeViolation_def notificationThrottleTime_def)
  from default_exempt_never_violation[OF h,
      of "(newService True 0)\<lparr>isFocusMode := True, listeners := [1]\<rparr>" 5000
         "js ''Electron Helper''" "js ''Unknown''"] d e y
  show ?thesis by simp
qed

section \<open>Subscriptions\<close>

text \<open>
  C9, as the code has it. Subscribing to the screen time, to the app usage, to the
  focus-mode state and to the focus score registers the callback and calls it once,
  within the call, with the current value. Subscribing to the notification messages
  registers the callback and calls nothing.
\<close>

theorem subscribe_replay:
  "effects (addScreenTimeListener s cb) = effects s @ [CallScreenTime cb (screenTimeToday s)]
   \<and> screenTimeListeners (addScreenTimeListener s cb) = screenTimeListeners s @ [cb]
   \<and> effects (addAppUsageListener s cb) = effects s @ [CallAppUsage cb (appUsageArray s)]
   \<and> appUsageListeners (addAppUsageListener s cb) = appUsageListeners s @ [cb]
   \<and> effects (addFocusModeListener s cb) = effects s @ [CallFocusMode cb (isFocusMode s)]
   \<and> focusModeListeners (addFocusModeListener s cb) = focusModeListeners s @ [cb]
   \<and> effects (addFocusScoreListener s cb)
        = effects s @ [CallFocusScore cb (focusScore s) (distractionCount s)]
   \<and> focusScoreUpdateListeners (addFocusScoreListener s cb)
        = focusScoreUpdateListeners s @ [cb]
   \<and> effects (addNotificationListener s cb) = effects s
   \<and> addNotificationListener s cb = s\<lparr>listeners := listeners s @ [cb]\<rparr>"
  by (simp add: addScreenTimeListener_def addAppUsageListener_def addFocusModeListener_def
      addFocusScoreListener_def addNotificationListener_def emit_def appUsageArray_def Let_def)

text \<open>
  C9 as the specification words it asks for a replay for all four kinds of signal. On a
  fresh service \<open>addNotificationListener\<close> produces no call, where
  \<open>addScreenTimeListener\<close> produces one.
\<close>

theorem addNotificationListener_no_replay_counterexample:
  "effects (addNotificationListener (newService True 1000) 7) = []
   \<and> effects (addScreenTimeListener (newService True 1000) 7) = [CallScreenTime 7 0]"
  by (simp add: addNotificationListener_def addScreenTimeListener_def newService_fields emit_def
      Let_def)

section \<open>The getter of the screen time\<close>

lemma update_keys_present:
  "map_of al k = Some v \<Longrightarrow> map fst (AList.update k v' al) = map fst al"
  by (induction al) (auto split: if_splits)

lemma updateScreenTime_U_ledger:
  "appUsageData (updateScreenTime_U s now)
     = (if userIdleTime s < idleThreshold
        then (case lastActiveWindow s of
                None \<Rightarrow> appUsageData s
              | Some w \<Rightarrow>
                  (if w = [] then appUsageData s
                   else (case map_of (appUsageData s) w of
                           None \<Rightarrow> appUsageData s
                         | Some d \<Rightarrow>
                             AList.update w
                               (d\<lparr>time := time d + (now - lastScreenTimeUpdate s),
                                  lastActiveTime := now\<rparr>) (appUsageData s))))
        else appUsageData s)"
  by (simp add: updateScreenTime_U_def updateAppUsageTime_def Let_def notify_defs
      split: option.splits)

lemma updateScreenTime_U_keys:
  "map fst (appUsageData (updateScreenTime_U s now)) = map fst (appUsageData s)"
  by (simp add: updateScreenTime_U_ledger update_keys_present split: option.splits)

lemma updateScreenTime_U_others:
  "lastActiveWindow s \<noteq> Some k \<Longrightarrow>
   map_of (appUsageData (updateScreenTime_U s now)) k = map_of (appUsageData s) k"
  by (auto simp add: updateScreenTime_U_ledger update_conv' split: option.splits)

lemma updateScreenTime_U_state:
  "updateScreenTime_U s now
     = s\<lparr>screenTimeToday := screenTimeToday (updateScreenTime_U s now),
          lastScreenTimeUpdate := now,
          appUsageData := appUsageData (updateScreenTime_U s now),
          effects := effects s @
            (if userIdleTime s < idleThreshold
             then map (\<lambda>listener. CallScreenTime listener
                         (screenTimeToday (updateScreenTime_U s now))) (screenTimeListeners s)
                  @ map (\<lambda>listener. CallAppUsage listener
                           (appUsageArray (updateScreenTime_U s now))) (appUsageListeners s)
             else [])\<rparr>"
  by (simp add: updateScreenTime_U_def updateAppUsageTime_def Let_def notify_defs
      appUsageArray_def split: option.splits)

lemma updateScreenTime_state:
  "updateScreenTime s now
     = s\<lparr>screenTimeToday := screenTimeToday (updateScreenTime s now),
          lastScreenTimeUpdate := now,
          effects := effects s @
            (if userIdleTime s < idleThreshold
             then map (\<lambda>listener. CallScreenTime listener
                         (screenTimeToday (updateScreenTime s now))) (screenTimeListeners s)
             else [])\<rparr>"
  by (simp add: updateScreenTime_def Let_def notify_defs)


lemma activeWindowChanged_U_video_fresh:
  "activeWindowChanged_U (newService True 0) (js ''YouTube - Cat Videos'') None 1000
     = (newService True 0)\<lparr>lastActiveWindow := Some (js ''YouTube - Cat Videos''),
          windowSwitches := 1, switchTimer := Some 31000, lastActivityTime := 1000,
          appUsageData := [(js ''YouTube'', \<lparr>time = 0, type = distraction,
                              lastActiveTime = 1000, sessionStart = Some 1000\<rparr>)]\<rparr>"
proof -
  have 1: "extractAppName (js ''YouTube - Cat Videos'') = js ''YouTube''"
    by (simp add: eval_title)
  have 2: "determineAppType (js ''YouTube'') = distraction" by code_simp
  have 3: "js ''YouTube - Cat Videos'' \<noteq> js ''Unknown''" by (simp add: js_def)
  show ?thesis
    by (simp add: activeWindowChanged_U_def handleRealWindowSwitch_U_def
        handleWindowSwitch_U_def trackAppUsage_U_def ownerOrUnknown_def 1 2 3
        Let_def notify_defs newService_fields switchTimeframe_def)
qed

text \<open>
  C10, as the code has it. \<open>getScreenTime\<close> runs an accumulation step: the total it
  returns is the old total plus, when the user is not idle, the time since the previous
  tick; the previous-tick timestamp becomes the current time; the screen-time listeners
  are called when the user is not idle; two calls in a row can return different values.
  In the variant with the focus score nothing else changes. In the user-isolated variant
  the step also writes the usage ledger, in one case only: when the user is not idle and
  the title of the last active window is not empty and is itself a key of the ledger,
  the elapsed time is added to that record and its last-active time becomes the current
  time. In every other case (the user is idle, there is no active window, or its title
  is not a key of the ledger, as for "YouTube - Cat Videos", whose record is kept under
  "YouTube") the ledger stays as it is. No record is created or removed, every record
  but that of the active window is unchanged, and apart from the calls of the listeners
  nothing else changes.
\<close>

theorem getScreenTime_effect:
  "fst (getScreenTime s now)
       = screenTimeToday s +
           (if userIdleTime s < idleThreshold then now - lastScreenTimeUpdate s else 0)
   \<and> snd (getScreenTime s now)
       = s\<lparr>screenTimeToday := fst (getScreenTime s now),
            lastScreenTimeUpdate := now,
            effects := effects s @
              (if userIdleTime s < idleThreshold
               then map (\<lambda>listener. CallScreenTime listener (fst (getScreenTime s now)))
                      (screenTimeListeners s)
               else [])\<rparr>
   \<and> fst (getScreenTime_U s now)
       = screenTimeToday s +
           (if userIdleTime s < idleThreshold then now - lastScreenTimeUpdate s else 0)
   \<and> snd (getScreenTime_U s now)
       = s\<lparr>screenTimeToday := fst (getScreenTime_U s now),
            lastScreenTimeUpdate := now,
            appUsageData := appUsageData (snd (getScreenTime_U s now)),
            effects := effects s @
              (if userIdleTime s < idleThreshold
               then map (\<lambda>listener. CallScreenTime listener (fst (getScreenTime_U s now)))
                      (screenTimeListeners s)
                    @ map (\<lambda>listener. CallAppUsage listener
                             (appUsageArray (snd (getScreenTime_U s now))))
                        (appUsageListeners s)
               else [])\<rparr>
   \<and> (userIdleTime s < idleThreshold \<and> lastActiveWindow s = Some w \<and> w \<noteq> [] \<and>
        map_of (appUsageData s) w = Some d \<longrightarrow>
        appUsageData (snd (getScreenTime_U s now))
          = AList.update w
              (d\<lparr>time := time d + (now - lastScreenTimeUpdate s), lastActiveTime := now\<rparr>)
              (appUsageData s))
   \<and> (idleThreshold \<le> userIdleTime s \<or> lastActiveWindow s = None \<or>
        lastActiveWindow s = Some [] \<or>
        (lastActiveWindow s = Some w \<and> map_of (appUsageData s) w = None) \<longrightarrow>
        appUsageData (snd (getScreenTime_U s now)) = appUsageData s)
   \<and> map fst (appUsageData (snd (getScreenTime_U s now))) = map fst (appUsageData s)
   \<and> (lastActiveWindow s \<noteq> Some k \<longrightarrow>
        map_of (appUsageData (snd (getScreenTime_U s now))) k = map_of (appUsageData s) k)
   \<and> fst (getScreenTime (newService True 0) 1000)
       \<noteq> fst (getScreenTime (snd (getScreenTime (newService True 0) 1000)) 2500)
   \<and> fst (getScreenTime_U (newService True 0) 1000)
       \<noteq> fst (getScreenTime_U (snd (getScreenTime_U (newService True 0) 1000)) 2500)"
proof -
  have g: "getScreenTime s now = (screenTimeToday (updateScreenTime s now), updateScreenTime s now)"
    "getScreenTime_U s now
       = (screenTimeToday (updateScreenTime_U s now), updateScreenTime_U s now)"
    by (simp_all add: getScreenTime_def getScreenTime_U_def Let_def)
  have a: "fst (getScreenTime s now)
       = screenTimeToday s +
           (if userIdleTime s < idleThreshold then now - lastScreenTimeUpdate s else 0)"
    by (simp add: g updateScreenTime_def Let_def notify_defs)
  have b: "snd (getScreenTime s now)
       = s\<lparr>screenTimeToday := fst (getScreenTime s now),
            lastScreenTimeUpdate := now,
            effects := effects s @
              (if userIdleTime s < idleThreshold
               then map (\<lambda>listener. CallScreenTime listener (fst (getScreenTime s now)))
                      (screenTimeListeners s)
               else [])\<rparr>"
    unfolding g fst_conv snd_conv by (rule updateScreenTime_state)
  have a': "fst (getScreenTime_U s now)
       = screenTimeToday s +
           (if userIdleTime s < idleThreshold then now - lastScreenTimeUpdate s else 0)"
    by (simp add: g updateScreenTime_U_def updateAppUsageTime_def Let_def notify_defs
        split: option.splits)
  have b': "snd (getScreenTime_U s now)
       = s\<lparr>screenTimeToday := fst (getScreenTime_U s now),
            lastScreenTimeUpdate := now,
            appUsageData := appUsageData (snd (getScreenTime_U s now)),
            effects := effects s @
              (if userIdleTime s < idleThreshold
               then map (\<lambda>listener. CallScreenTime listener (fst (getScreenTime_U s now)))
                      (screenTimeListeners s)
                    @ map (\<lambda>listener. CallAppUsage listener
                             (appUsageArray (snd (getScreenTime_U s now))))
                        (appUsageListeners s)
               else [])\<rparr>"
    unfolding g fst_conv snd_conv by (rule updateScreenTime_U_state)
  have c: "appUsageData (snd (getScreenTime_U s now))
          = AList.update w
              (d\<lparr>time := time d + (now - lastScreenTimeUpdate s), lastActiveTime := now\<rparr>)
              (appUsageData s)"
    if "userIdleTime s < idleThreshold \<and> lastActiveWindow s = Some w \<and> w \<noteq> [] \<and>
        map_of (appUsageData s) w = Some d"
    using that by (simp add: g updateScreenTime_U_ledger)
  have d: "appUsageData (snd (getScreenTime_U s now)) = appUsageData s"
    if "idleThreshold \<le> userIdleTime s \<or> lastActiveWindow s = None \<or>
        lastActiveWindow s = Some [] \<or>
        (lastActiveWindow s = Some w \<and> map_of (appUsageData s) w = None)"
    using that by (auto simp add: g updateScreenTime_U_ledger split: option.splits)
  have e: "map fst (appUsageData (snd (getScreenTime_U s now))) = map fst (appUsageData s)"
    by (simp add: g updateScreenTime_U_keys)
  have f: "map_of (appUsageData (snd (getScreenTime_U s now))) k = map_of (appUsageData s) k"
    if "lastActiveWindow s \<noteq> Some k"
    using that by (simp add: g updateScreenTime_U_others)
  have h: "fst (getScreenTime (newService True 0) 1000)
       \<noteq> fst (getScreenTime (snd (getScreenTime (newService True 0) 1000)) 2500)"
    by (simp add: getScreenTime_def updateScreenTime_def Let_def notify_defs newService_fields
        idleThreshold_def)
  have h': "fst (getScreenTime_U (newService True 0) 1000)
       \<noteq> fst (getScreenTime_U (snd (getScreenTime_U (newService True 0) 1000)) 2500)"
    by (simp add: getScreenTime_U_def updateScreenTime_U_def Let_def notify_defs
        newService_fields idleThreshold_def)
  from a b a' b' c d e f h h' show ?thesis by blast
qed

theorem getScreenTime_effect_witness:
  "appUsageData (snd (getScreenTime_U
       (activeWindowChanged_U (newService True 0) (js ''Notes'') None 1000) 5000))
     = [(js ''Notes'', \<lparr>time = 5000, type = productive, lastActiveTime = 5000,
                        sessionStart = Some 1000\<rparr>)]
   \<and> appUsageData (snd (getScreenTime_U
       (activeWindowChanged_U (newService True 0) (js ''YouTube - Cat Videos'') None 1000) 5000))
     = [(js ''YouTube'', \<lparr>time = 0, type = distraction, lastActiveTime = 1000,
                          sessionStart = Some 1000\<rparr>)]
   \<and> fst (getScreenTime_U
       (activeWindowChanged_U (newService True 0) (js ''YouTube - Cat Videos'') None 1000) 5000)
     = 5000
   \<and> map_of (appUsageData (snd (getScreenTime_U
       (activeWindowChanged_U (newService True 0) (js ''Notes'') None 1000) 5000)))
       (js ''YouTube'') = None"
proof -
  define n where "n = activeWindowChanged_U (newService True 0) (js ''Notes'') None 1000"
  define v where
    "v = activeWindowChanged_U (newService True 0) (js ''YouTube - Cat Videos'') None 1000"
  let ?dn = "\<lparr>time = 0, type = productive, lastActiveTime = 1000, sessionStart = Some 1000\<rparr>"
  have ne: "js ''Notes'' \<noteq> []" "js ''Notes'' \<noteq> js ''YouTube''"
    "js ''YouTube'' \<noteq> js ''Notes''"
    "js ''YouTube - Cat Videos'' \<noteq> js ''YouTube''"
    by (simp_all add: js_def)
  have nf: "userIdleTime n = 0" "lastActiveWindow n = Some (js ''Notes'')"
    "appUsageData n = [(js ''Notes'', ?dn)]" "lastScreenTimeUpdate n = 0"
    unfolding n_def activeWindowChanged_U_notes_fresh by (simp_all add: newService_fields)
  have vf: "userIdleTime v = 0" "lastActiveWindow v = Some (js ''YouTube - Cat Videos'')"
    "appUsageData v = [(js ''YouTube'', \<lparr>time = 0, type = distraction, lastActiveTime = 1000,
                          sessionStart = Some 1000\<rparr>)]"
    "lastScreenTimeUpdate v = 0" "screenTimeToday v = 0"
    unfolding v_def activeWindowChanged_U_video_fresh by (simp_all add: newService_fields)
  have hn: "userIdleTime n < idleThreshold \<and> lastActiveWindow n = Some (js ''Notes'') \<and>
      js ''Notes'' \<noteq> [] \<and> map_of (appUsageData n) (js ''Notes'') = Some ?dn"
    by (simp add: nf ne idleThreshold_def)
  from getScreenTime_effect[of n 5000 "js ''Notes''" ?dn k] hn
  have 1: "appUsageData (snd (getScreenTime_U n 5000))
      = AList.update (js ''Notes'')
          (?dn\<lparr>time := time ?dn + (5000 - lastScreenTimeUpdate n), lastActiveTime := 5000\<rparr>)
          (appUsageData n)" by blast
  have hv: "lastActiveWindow v = Some (js ''YouTube - Cat Videos'') \<and>
      map_of (appUsageData v) (js ''YouTube - Cat Videos'') = None"
    by (simp add: vf ne)
  from getScreenTime_effect[of v 5000 "js ''YouTube - Cat Videos''" d k] hv
  have 2: "appUsageData (snd (getScreenTime_U v 5000)) = appUsageData v" by blast
  from getScreenTime_effect[of v 5000 w d k]
  have 3: "fst (getScreenTime_U v 5000)
      = screenTimeToday v +
          (if userIdleTime v < idleThreshold then 5000 - lastScreenTimeUpdate v else 0)"
    by blast
  have hk: "lastActiveWindow n \<noteq> Some (js ''YouTube'')" by (simp add: nf ne)
  from getScreenTime_effect[of n 5000 w d "js ''YouTube''"] hk
  have 4: "map_of (appUsageData (snd (getScreenTime_U n 5000))) (js ''YouTube'')
      = map_of (appUsageData n) (js ''YouTube'')" by blast
  from 1 2 3 4 show ?thesis
    unfolding n_def[symmetric] v_def[symmetric]
    by (simp add: nf vf ne idleThreshold_def)
qed

text \<open>
  C10 as the specification words it leaves every other part of the state unchanged. In
  the user-isolated variant the getter advances the usage record of the active window:
  after one activity event for "Notes" at time 1000 the record holds no time, and after
  \<open>getScreenTime\<close> at time 5000 it holds 5000 ms.
\<close>

theorem getScreenTime_U_ledger_counterexample:
  "appUsageData (activeWindowChanged_U (newService True 0) (js ''Notes'') None 1000)
     = [(js ''Notes'', \<lparr>time = 0, type = productive, lastActiveTime = 1000,
                        sessionStart = Some 1000\<rparr>)]
   \<and> appUsageData (snd (getScreenTime_U
         (activeWindowChanged_U (newService True 0) (js ''Notes'') None 1000) 5000))
     = [(js ''Notes'', \<lparr>time = 5000, type = productive, lastActiveTime = 5000,
                        sessionStart = Some 1000\<rparr>)]"
proof -
  have n: "js ''Notes'' \<noteq> []" by (simp add: js_def)
  show ?thesis
    unfolding activeWindowChanged_U_notes_fresh
    by (simp add: getScreenTime_U_def updateScreenTime_U_def updateAppUsageTime_def n
        Let_def notify_defs newService_fields idleThreshold_def)
qed

section \<open>Activity events with an empty identity\<close>

text \<open>
  C8, as the code has it. Every activity event sets the last-activity clock to the time
  of the event. An event whose derived identity is empty is not skipped: afterwards the
  ledger holds a record for the empty identity, with its last-active time set to the
  time of the event, and switch detection runs on the raw title: when the title is not
  the last active window the switch counter advances (by one; back to zero when it
  reaches the threshold, in the variant with the distraction streak).
\<close>

theorem empty_identity_not_skipped:
  "lastActivityTime (activeWindowChanged s title owner now) = now
   \<and> lastActivityTime (activeWindowChanged_U s title owner now) = now
   \<and> (derivedIdentity title (ownerOrUnknown owner) = [] \<longrightarrow>
        (\<exists>d. map_of (appUsageData (activeWindowChanged s title owner now)) [] = Some d
              \<and> lastActiveTime d = now)
        \<and> (\<exists>d. map_of (appUsageData (activeWindowChanged_U s title owner now)) [] = Some d
              \<and> lastActiveTime d = now))
   \<and> (lastActiveWindow s \<noteq> Some title \<longrightarrow>
        windowSwitches (activeWindowChanged s title owner now)
          = (if windowSwitches s + 1 \<ge> switchThreshold then 0 else windowSwitches s + 1)
        \<and> windowSwitches (activeWindowChanged_U s title owner now) = windowSwitches s + 1)"
proof -
  have a: "lastActivityTime (activeWindowChanged s title owner now) = now"
    by (simp add: activeWindowChanged_def Let_def)
  have b: "lastActivityTime (activeWindowChanged_U s title owner now) = now"
    by (simp add: activeWindowChanged_U_def Let_def)
  have c: "\<exists>d. map_of (appUsageData (activeWindowChanged s title owner now)) [] = Some d
              \<and> lastActiveTime d = now"
    if "derivedIdentity title (ownerOrUnknown owner) = []"
    using trackAppUsage_record[of "handleRealWindowSwitch s title now" title
        "ownerOrUnknown owner" now] that
    by (simp add: activeWindowChanged_def Let_def)
  have d: "\<exists>d. map_of (appUsageData (activeWindowChanged_U s title owner now)) [] = Some d
              \<and> lastActiveTime d = now"
    if "derivedIdentity title (ownerOrUnknown owner) = []"
    using trackAppUsage_U_record[of "handleRealWindowSwitch_U s title now" title
        "ownerOrUnknown owner" now] that
    by (simp add: activeWindowChanged_U_def Let_def)
  have e: "windowSwitches (activeWindowChanged s title owner now)
          = (if windowSwitches s + 1 \<ge> switchThreshold then 0 else windowSwitches s + 1)"
    if "lastActiveWindow s \<noteq> Some title"
    using handleRealWindowSwitch_counter[OF that]
    by (simp add: activeWindowChanged_def Let_def trackAppUsage_frame)
  have f: "windowSwitches (activeWindowChanged_U s title owner now) = windowSwitches s + 1"
    if "lastActiveWindow s \<noteq> Some title"
    using handleRealWindowSwitch_U_counter[OF that]
    by (simp add: activeWindowChanged_U_def Let_def trackAppUsage_U_frame)
  from a b c d e f show ?thesis by blast
qed

theorem empty_identity_not_skipped_witness:
  "lastActivityTime (activeWindowChanged (newService True 0) [] None 1000) = 1000
   \<and> (\<exists>d. map_of (appUsageData (activeWindowChanged (newService True 0) [] None 1000)) []
            = Some d \<and> lastActiveTime d = 1000)
   \<and> windowSwitches (activeWindowChanged (newService True 0) [] None 1000) = 1
   \<and> windowSwitches (activeWindowChanged_U (newService True 0) [] None 1000) = 1"
proof -
  have h1: "derivedIdentity [] (ownerOrUnknown None) = []"
    by (simp add: derivedIdentity_def ownerOrUnknown_def extractAppName_def)
  have h2: "lastActiveWindow (newService True 0) \<noteq> Some []"
    by (simp add: newService_fields)
  have w: "windowSwitches (newService True 0) = 0" by (simp add: newService_fields)
  from empty_identity_not_skipped[of "newService True 0" "[]" None 1000] h1 h2 w
  show ?thesis by (simp add: switchThreshold_def)
qed

text \<open>
  C8 as the specification words it has the event skipped. On a fresh service, the event
  with the empty title and no owner has the empty identity, moves the switch counter
  from 0 to 1 and creates a usage record for the empty identity.
\<close>

theorem empty_identity_counterexample:
  "derivedIdentity [] (ownerOrUnknown None) = []
   \<and> windowSwitches (newService True 0) = 0
   \<and> windowSwitches (activeWindowChanged (newService True 0) [] None 1000) = 1
   \<and> windowSwitches (activeWindowChanged_U (newService True 0) [] None 1000) = 1
   \<and> appUsageData (newService True 0) = []
   \<and> appUsageData (activeWindowChanged (newService True 0) [] None 1000)
       = [([], \<lparr>time = 1000, type = productive, lastActiveTime = 1000, sessionStart = None\<rparr>)]
   \<and> appUsageData (activeWindowChanged_U (newService True 0) [] None 1000)
       = [([], \<lparr>time = 0, type = productive, lastActiveTime = 1000,
               sessionStart = Some 1000\<rparr>)]"
proof -
  have 1: "derivedIdentity [] (ownerOrUnknown None) = []"
    by (simp add: derivedIdentity_def ownerOrUnknown_def extractAppName_def)
  have 2: "windowSwitches (newService True 0) = 0" "appUsageData (newService True 0) = []"
    by (simp_all add: newService_fields)
  have 3: "windowSwitches (activeWindowChanged (newService True 0) [] None 1000) = 1"
    "appUsageData (activeWindowChanged (newService True 0) [] None 1000)
       = [([], \<lparr>time = 1000, type = productive, lastActiveTime = 1000, sessionStart = None\<rparr>)]"
    by (simp_all only: activeWindowChanged_empty_fresh) simp_all
  have 4: "windowSwitches (activeWindowChanged_U (newService True 0) [] None 1000) = 1"
    "appUsageData (activeWindowChanged_U (newService True 0) [] None 1000)
       = [([], \<lparr>time = 0, type = productive, lastActiveTime = 1000,
               sessionStart = Some 1000\<rparr>)]"
    by (simp_all only: activeWindowChanged_U_empty_fresh) simp_all
  from 1 2 3 4 show ?thesis by simp
qed

section \<open>The screen-time accumulator\<close>

lemma states_hd: "states f s es ! 0 = s"
  by (cases es) simp_all

lemma states_step_property:
  assumes keep: "\<And>s e. lastScreenTimeUpdate s \<le> clock e \<Longrightarrow> lastScreenTimeUpdate (f s e) \<le> clock e"
    and stepP: "\<And>s e. lastScreenTimeUpdate s \<le> clock e \<Longrightarrow> P s e (f s e)"
  shows "lastScreenTimeUpdate s \<le> t0 \<Longrightarrow> clockFrom t0 es \<Longrightarrow> i < length es \<Longrightarrow>
         P (states f s es ! i) (es ! i) (states f s es ! Suc i)"
proof (induction es arbitrary: s t0 i)
  case Nil
  then show ?case by simp
next
  case (Cons e es)
  from Cons.prems have le: "lastScreenTimeUpdate s \<le> clock e" by simp
  show ?case
  proof (cases i)
    case 0
    with stepP[OF le] show ?thesis by (simp add: states_hd)
  next
    case (Suc k)
    from Cons.prems Suc have "clockFrom (clock e) es" "k < length es" by simp_all
    with Cons.IH[OF keep[OF le]] have
      "P (states f (f s e) es ! k) (es ! k) (states f (f s e) es ! Suc k)" by blast
    with Suc show ?thesis by simp
  qed
qed

lemma handleRealWindowSwitch_frame:
  "screenTimeToday (handleRealWindowSwitch s t now) = screenTimeToday s"
  "lastScreenTimeUpdate (handleRealWindowSwitch s t now) = lastScreenTimeUpdate s"
  "userIdleTime (handleRealWindowSwitch s t now) = userIdleTime s"
  "appUsageData (handleRealWindowSwitch s t now) = appUsageData s"
  by (simp_all add: handleRealWindowSwitch_def handleWindowSwitch_def Let_def notify_defs
      notifyFocusNeeded_def)

lemma handleRealWindowSwitch_U_frame:
  "screenTimeToday (handleRealWindowSwitch_U s t now) = screenTimeToday s"
  "lastScreenTimeUpdate (handleRealWindowSwitch_U s t now) = lastScreenTimeUpdate s"
  "userIdleTime (handleRealWindowSwitch_U s t now) = userIdleTime s"
  "appUsageData (handleRealWindowSwitch_U s t now) = appUsageData s"
  by (simp_all add: handleRealWindowSwitch_U_def handleWindowSwitch_U_def Let_def emit_def)

lemma updateScreenTime_total:
  "screenTimeToday (updateScreenTime s now)
     = screenTimeToday s +
         (if userIdleTime s < idleThreshold then now - lastScreenTimeUpdate s else 0)"
  "lastScreenTimeUpdate (updateScreenTime s now) = now"
  by (simp_all add: updateScreenTime_def Let_def notify_defs)

lemma updateScreenTime_U_total:
  "screenTimeToday (updateScreenTime_U s now)
     = screenTimeToday s +
         (if userIdleTime s < idleThreshold then now - lastScreenTimeUpdate s else 0)"
  "lastScreenTimeUpdate (updateScreenTime_U s now) = now"
  by (simp_all add: updateScreenTime_U_def updateAppUsageTime_def Let_def notify_defs
      split: option.splits)

lemma step_lastScreenTimeUpdate:
  "lastScreenTimeUpdate s \<le> clock e \<Longrightarrow> lastScreenTimeUpdate (step s e) \<le> clock e"
  by (cases e)
    (simp_all add: activeWindowChanged_def Let_def trackAppUsage_frame
      handleRealWindowSwitch_frame idleCheck_def updateScreenTime_total switchTimerFired_def
      resetDailyStats_def notify_defs split: option.splits)

lemma setCurrentUser_lastScreenTimeUpdate:
  "lastScreenTimeUpdate (setCurrentUser s u now) = lastScreenTimeUpdate s"
  by (simp add: setCurrentUser_def loadUserData_def resetUserData_def Let_def notify_defs
      split: option.splits)

lemma step_U_lastScreenTimeUpdate:
  "lastScreenTimeUpdate s \<le> clock e \<Longrightarrow> lastScreenTimeUpdate (step_U s e) \<le> clock e"
  by (cases e)
    (simp_all add: activeWindowChanged_U_def Let_def trackAppUsage_U_frame
      handleRealWindowSwitch_U_frame idleCheck_def updateScreenTime_U_total
      switchTimerFired_def resetDailyStats_U_def setCurrentUser_lastScreenTimeUpdate
      notify_defs split: option.splits)

lemma step_screenTime:
  "lastScreenTimeUpdate s \<le> clock e \<Longrightarrow> screenTimeStep s e (step s e)"
  by (cases e)
    (simp_all add: screenTimeStep_def activeWindowChanged_def Let_def trackAppUsage_frame
      handleRealWindowSwitch_frame idleCheck_def updateScreenTime_total switchTimerFired_def
      split: option.splits)

lemma step_U_screenTime:
  "lastScreenTimeUpdate s \<le> clock e \<Longrightarrow> screenTimeStep s e (step_U s e)"
  by (cases e)
    (simp_all add: screenTimeStep_def activeWindowChanged_U_def Let_def trackAppUsage_U_frame
      handleRealWindowSwitch_U_frame idleCheck_def updateScreenTime_U_total
      switchTimerFired_def split: option.splits)

lemma activeWindowChanged_clock:
  "screenTimeToday (activeWindowChanged s t ow now) = screenTimeToday s"
  "lastScreenTimeUpdate (activeWindowChanged s t ow now) = lastScreenTimeUpdate s"
  "userIdleTime (activeWindowChanged s t ow now) = userIdleTime s"
  "lastActivityTime (activeWindowChanged s t ow now) = now"
  by (simp_all add: activeWindowChanged_def Let_def trackAppUsage_frame
      handleRealWindowSwitch_frame)

lemma activeWindowChanged_U_clock:
  "screenTimeToday (activeWindowChanged_U s t ow now) = screenTimeToday s"
  "lastScreenTimeUpdate (activeWindowChanged_U s t ow now) = lastScreenTimeUpdate s"
  "userIdleTime (activeWindowChanged_U s t ow now) = userIdleTime s"
  "lastActivityTime (activeWindowChanged_U s t ow now) = now"
  by (simp_all add: activeWindowChanged_U_def Let_def trackAppUsage_U_frame
      handleRealWindowSwitch_U_frame)

lemma idleCheck_clock:
  "screenTimeToday (idleCheck s now) = screenTimeToday s"
  "lastScreenTimeUpdate (idleCheck s now) = lastScreenTimeUpdate s"
  "userIdleTime (idleCheck s now)
     = (if idleThreshold < now - lastActivityTime s then now - lastActivityTime s else 0)"
  "lastActivityTime (idleCheck s now) = lastActivityTime s"
  by (simp_all add: idleCheck_def Let_def)

lemma updateScreenTime_clock:
  "userIdleTime (updateScreenTime s now) = userIdleTime s"
  "lastActivityTime (updateScreenTime s now) = lastActivityTime s"
  "userIdleTime (updateScreenTime_U s now) = userIdleTime s"
  "lastActivityTime (updateScreenTime_U s now) = lastActivityTime s"
  by (simp_all add: updateScreenTime_def updateScreenTime_U_def updateAppUsageTime_def
      Let_def notify_defs split: option.splits)

lemmas clock_eval = activeWindowChanged_clock activeWindowChanged_U_clock idleCheck_clock
  updateScreenTime_clock updateScreenTime_total updateScreenTime_U_total

text \<open>
  C1. Along every run of activity events, idle checks and accumulation ticks (switch
  timeouts and resets may occur too), read off a clock that does not run backwards, the
  screen time of today does not decrease at any step that is not a reset, and a step at
  which it grows is an accumulation tick taken while the idle flag was false. Both
  variants.
\<close>

theorem screenTime_nondecreasing:
  assumes "lastScreenTimeUpdate s \<le> t0" and "clockFrom t0 es" and "i < length es"
  shows "(\<not> isReset (es ! i) \<longrightarrow>
            screenTimeToday (states step s es ! i) \<le> screenTimeToday (states step s es ! Suc i)
          \<and> (screenTimeToday (states step s es ! i) < screenTimeToday (states step s es ! Suc i)
               \<longrightarrow> isTick (es ! i) \<and> userIdleTime (states step s es ! i) < idleThreshold))
       \<and> (\<not> isReset (es ! i) \<longrightarrow>
            screenTimeToday (states step_U s es ! i) \<le> screenTimeToday (states step_U s es ! Suc i)
          \<and> (screenTimeToday (states step_U s es ! i) < screenTimeToday (states step_U s es ! Suc i)
               \<longrightarrow> isTick (es ! i) \<and> userIdleTime (states step_U s es ! i) < idleThreshold))"
proof -
  have "screenTimeStep (states step s es ! i) (es ! i) (states step s es ! Suc i)"
  proof (rule states_step_property[of step screenTimeStep, OF _ _ assms])
    fix s :: service and e assume "lastScreenTimeUpdate s \<le> clock e"
    then show "lastScreenTimeUpdate (step s e) \<le> clock e" by (rule step_lastScreenTimeUpdate)
  next
    fix s :: service and e assume "lastScreenTimeUpdate s \<le> clock e"
    then show "screenTimeStep s e (step s e)" by (rule step_screenTime)
  qed
  moreover have "screenTimeStep (states step_U s es ! i) (es ! i) (states step_U s es ! Suc i)"
  proof (rule states_step_property[of step_U screenTimeStep, OF _ _ assms])
    fix s :: service and e assume "lastScreenTimeUpdate s \<le> clock e"
    then show "lastScreenTimeUpdate (step_U s e) \<le> clock e" by (rule step_U_lastScreenTimeUpdate)
  next
    fix s :: service and e assume "lastScreenTimeUpdate s \<le> clock e"
    then show "screenTimeStep s e (step_U s e)" by (rule step_U_screenTime)
  qed
  ultimately show ?thesis unfolding screenTimeStep_def by blast
qed

theorem screenTime_nondecreasing_witness:
  "screenTimeToday (states step (newService True 0) [IdleCheck 10000, Tick 60000] ! 1)
     \<le> screenTimeToday (states step (newService True 0) [IdleCheck 10000, Tick 60000] ! Suc 1)
   \<and> isTick ([IdleCheck 10000, Tick 60000] ! 1)
   \<and> userIdleTime (states step (newService True 0) [IdleCheck 10000, Tick 60000] ! 1)
       < idleThreshold
   \<and> screenTimeToday (states step_U (newService True 0) [IdleCheck 10000, Tick 60000] ! 1)
     \<le> screenTimeToday (states step_U (newService True 0) [IdleCheck 10000, Tick 60000] ! Suc 1)
   \<and> userIdleTime (states step_U (newService True 0) [IdleCheck 10000, Tick 60000] ! 1)
       < idleThreshold"
proof -
  have h1: "lastScreenTimeUpdate (newService True 0) \<le> 0" by (simp add: newService_fields)
  have h2: "clockFrom 0 [IdleCheck 10000, Tick 60000]" by simp
  have h3: "(1::nat) < length [IdleCheck 10000, Tick 60000]" by simp
  have h4: "\<not> isReset ([IdleCheck 10000, Tick 60000] ! 1)" by simp
  have h5: "screenTimeToday (states step (newService True 0) [IdleCheck 10000, Tick 60000] ! 1)
      < screenTimeToday (states step (newService True 0) [IdleCheck 10000, Tick 60000] ! Suc 1)"
    by (simp add: idleCheck_def updateScreenTime_total newService_fields idleThreshold_def)
  have h6: "screenTimeToday (states step_U (newService True 0) [IdleCheck 10000, Tick 60000] ! 1)
      < screenTimeToday (states step_U (newService True 0) [IdleCheck 10000, Tick 60000] ! Suc 1)"
    by (simp add: idleCheck_def updateScreenTime_U_total newService_fields idleThreshold_def)
  from screenTime_nondecreasing[OF h1 h2 h3] h4 h5 h6 show ?thesis by blast
qed

text \<open>
  C2, as the code has it. The idle flag is set by the 10-second idle check, when it
  finds more than 60 seconds since the last activity event, and cleared by it otherwise.
  An accumulation tick taken while the flag is set adds nothing to the screen time and
  leaves every usage record as it is, and still moves the previous-tick timestamp to
  the current time. Both variants.
\<close>

theorem idle_tick_adds_nothing:
  "(idleThreshold \<le> userIdleTime s \<longrightarrow>
      screenTimeToday (updateScreenTime s now) = screenTimeToday s
      \<and> appUsageData (updateScreenTime s now) = appUsageData s
      \<and> lastScreenTimeUpdate (updateScreenTime s now) = now
      \<and> screenTimeToday (updateScreenTime_U s now) = screenTimeToday s
      \<and> appUsageData (updateScreenTime_U s now) = appUsageData s
      \<and> lastScreenTimeUpdate (updateScreenTime_U s now) = now)
   \<and> (idleThreshold < t - lastActivityTime s \<longrightarrow>
        idleThreshold \<le> userIdleTime (idleCheck s t))
   \<and> (t - lastActivityTime s \<le> idleThreshold \<longrightarrow>
        userIdleTime (idleCheck s t) < idleThreshold)"
  by (simp add: updateScreenTime_def updateScreenTime_U_def idleCheck_def Let_def
      idleThreshold_def)

theorem idle_tick_adds_nothing_witness:
  "screenTimeToday (updateScreenTime (idleCheck (newService True 0) 70000) 120000) = 0
   \<and> lastScreenTimeUpdate (updateScreenTime (idleCheck (newService True 0) 70000) 120000)
       = 120000
   \<and> screenTimeToday (updateScreenTime_U (idleCheck (newService True 0) 70000) 120000) = 0
   \<and> userIdleTime (idleCheck (newService True 0) 50000) < idleThreshold"
proof -
  have h1: "idleThreshold < 70000 - lastActivityTime (newService True 0)"
    by (simp add: newService_fields idleThreshold_def)
  have h2: "50000 - lastActivityTime (newService True 0) \<le> idleThreshold"
    by (simp add: newService_fields idleThreshold_def)
  have z: "screenTimeToday (idleCheck (newService True 0) 70000) = 0"
    by (simp add: idleCheck_def newService_fields Let_def)
  from idle_tick_adds_nothing[of "newService True 0" 0 70000] h1
  have i: "idleThreshold \<le> userIdleTime (idleCheck (newService True 0) 70000)" by blast
  from idle_tick_adds_nothing[of "idleCheck (newService True 0) 70000" 120000 0] i z
    idle_tick_adds_nothing[of "newService True 0" 0 50000] h2
  show ?thesis by simp
qed

text \<open>
  C2 as the specification words it has every tick across a gap of more than 60 seconds
  between two activity events add nothing. In the run \<open>gapTrace\<close> the two activity events
  are 68 seconds apart; no idle check sees more than 60 seconds without activity (59
  seconds at 60000, 1 second at 70000), so the tick at 60000, inside the gap, adds 60
  seconds, and so does the tick at 120000: no time is discarded.
\<close>

theorem active_gap_tick_counterexample:
  "gapTrace ! 0 = Activity (js ''Notes'') None 1000
   \<and> gapTrace ! 8 = Activity (js ''Notes'') None 69000
   \<and> idleThreshold < 69000 - 1000
   \<and> gapTrace ! 7 = Tick 60000
   \<and> screenTimeToday (states step (newService True 0) gapTrace ! 7) = 0
   \<and> screenTimeToday (states step (newService True 0) gapTrace ! 8) = 60000
   \<and> gapTrace ! 15 = Tick 120000
   \<and> screenTimeToday (states step (newService True 0) gapTrace ! 15) = 60000
   \<and> screenTimeToday (states step (newService True 0) gapTrace ! 16) = 120000
   \<and> screenTimeToday (states step_U (newService True 0) gapTrace ! 7) = 0
   \<and> screenTimeToday (states step_U (newService True 0) gapTrace ! 8) = 60000
   \<and> screenTimeToday (states step_U (newService True 0) gapTrace ! 15) = 60000
   \<and> screenTimeToday (states step_U (newService True 0) gapTrace ! 16) = 120000"
proof -
  have z: "screenTimeToday (newService True 0) = 0" "lastScreenTimeUpdate (newService True 0) = 0"
    "userIdleTime (newService True 0) = 0" "lastActivityTime (newService True 0) = 0"
    by (simp_all add: newService_fields)
  show ?thesis
    by (simp add: gapTrace_def clock_eval z idleThreshold_def)
qed

section \<open>The distraction streak\<close>

lemma filter_reminder_maps [simp]:
  "filter isFocusReminder (map (\<lambda>l. CallMessage l m b) ls) = []"
  "filter isFocusReminder (map (\<lambda>l. CallFocusScore l x y) ls) = []"
  "filter isFocusReminder (map (\<lambda>l. CallAppUsage l a) ls) = []"
  "filter isFocusReminder (map (\<lambda>l. CallScreenTime l t) ls) = []"
  "filter isFocusReminder (map (\<lambda>l. CallFocusMode l f) ls) = []"
  by (induction ls) simp_all

lemma alert_title_differs: "js ''Focus Mode Alert'' \<noteq> js ''Focus Reminder''"
  by (simp add: js_def)

lemma handleWindowSwitch_same:
  "lastActiveWindow s = Some w \<Longrightarrow> handleWindowSwitch s w now = s"
  by (simp add: handleWindowSwitch_def)

lemma handleWindowSwitch_below:
  assumes "lastActiveWindow s \<noteq> Some w" "windowSwitches s + 1 < switchThreshold"
  shows "handleWindowSwitch s w now
           = s\<lparr>lastActiveWindow := Some w, windowSwitches := windowSwitches s + 1,
                switchTimer := Some (now + switchTimeframe)\<rparr>"
  using assms by (simp add: handleWindowSwitch_def Let_def)

lemma handleWindowSwitch_cooldown:
  assumes "lastActiveWindow s \<noteq> Some w" "switchThreshold \<le> windowSwitches s + 1"
    "now - lastNotificationTime s \<le> notificationCooldown"
  shows "handleWindowSwitch s w now
           = s\<lparr>lastActiveWindow := Some w, windowSwitches := 0,
                switchTimer := Some (now + switchTimeframe)\<rparr>"
  using assms by (simp add: handleWindowSwitch_def Let_def)

lemma handleWindowSwitch_emits:
  assumes "lastActiveWindow s \<noteq> Some w" "switchThreshold \<le> windowSwitches s + 1"
    "notificationCooldown < now - lastNotificationTime s"
  shows "handleWindowSwitch s w now
           = s\<lparr>lastActiveWindow := Some w, windowSwitches := 0,
                switchTimer := Some (now + switchTimeframe),
                lastNotificationTime := now,
                distractionCount := distractionCount s + 1,
                focusScore := max 0 (100 - (distractionCount s + 1) * 5),
                effects := effects s
                  @ (if isDesktopApp s
                     then [SendNative (js ''Focus Reminder'') focusNeededMessage None] else [])
                  @ map (\<lambda>listener. CallMessage listener focusNeededMessage True) (listeners s)
                  @ map (\<lambda>listener. CallFocusScore listener
                           (max 0 (100 - (distractionCount s + 1) * 5)) (distractionCount s + 1))
                      (focusScoreUpdateListeners s)\<rparr>"
  using assms
  by (simp add: handleWindowSwitch_def Let_def notifyFocusNeeded_def notify_defs)

lemma score_step:
  "scoreInvariant s \<Longrightarrow> max 0 (100 - (distractionCount s + 1) * 5) = max 0 (focusScore s - 5)"
  by (simp add: scoreInvariant_def)


lemma handleWindowSwitch_reminder:
  assumes "isDesktopApp s"
  shows "(focusReminders s < focusReminders (handleWindowSwitch s w now) \<longrightarrow>
            notificationCooldown < now - lastNotificationTime s
            \<and> lastNotificationTime (handleWindowSwitch s w now) = now)
       \<and> (\<not> focusReminders s < focusReminders (handleWindowSwitch s w now) \<longrightarrow>
            lastNotificationTime (handleWindowSwitch s w now) = lastNotificationTime s)
       \<and> isDesktopApp (handleWindowSwitch s w now)"
proof -
  consider (same) "lastActiveWindow s = Some w"
    | (below) "lastActiveWindow s \<noteq> Some w" "windowSwitches s + 1 < switchThreshold"
    | (cooldown) "lastActiveWindow s \<noteq> Some w" "switchThreshold \<le> windowSwitches s + 1"
        "now - lastNotificationTime s \<le> notificationCooldown"
    | (emits) "lastActiveWindow s \<noteq> Some w" "switchThreshold \<le> windowSwitches s + 1"
        "notificationCooldown < now - lastNotificationTime s"
    by linarith
  then show ?thesis
  proof cases
  case same
  then show ?thesis using assms by (simp add: handleWindowSwitch_same)
next
  case below
  then show ?thesis using assms by (simp add: handleWindowSwitch_below focusReminders_def)
next
  case cooldown
  then show ?thesis using assms by (simp add: handleWindowSwitch_cooldown focusReminders_def)
next
  case emits
  then show ?thesis using assms by (simp add: handleWindowSwitch_emits focusReminders_def)
  qed
qed

lemma handleRealWindowSwitch_reminder:
  assumes "isDesktopApp s"
  shows "(focusReminders s < focusReminders (handleRealWindowSwitch s w now) \<longrightarrow>
            notificationCooldown < now - lastNotificationTime s
            \<and> lastNotificationTime (handleRealWindowSwitch s w now) = now)
       \<and> (\<not> focusReminders s < focusReminders (handleRealWindowSwitch s w now) \<longrightarrow>
            lastNotificationTime (handleRealWindowSwitch s w now) = lastNotificationTime s)
       \<and> isDesktopApp (handleRealWindowSwitch s w now)"
proof (cases "now - lastWindowSwitchTime s > 2000")
  case True
  define s1 where "s1 = emit [DispatchWindowChanged w]
      (s\<lparr>recentSwitches := recentSwitches s + 1, lastWindowSwitchTime := now\<rparr>)"
  have eq: "handleRealWindowSwitch s w now = handleWindowSwitch s1 w now"
    using True by (simp add: handleRealWindowSwitch_def s1_def Let_def)
  have s1: "isDesktopApp s1" "focusReminders s1 = focusReminders s"
    "lastNotificationTime s1 = lastNotificationTime s"
    using assms by (simp_all add: s1_def emit_def focusReminders_def)
  from handleWindowSwitch_reminder[OF s1(1), of w now] show ?thesis
    unfolding eq s1(2,3) .
next
  case False
  then have eq: "handleRealWindowSwitch s w now = handleWindowSwitch s w now"
    by (simp add: handleRealWindowSwitch_def Let_def)
  from handleWindowSwitch_reminder[OF assms, of w now] show ?thesis unfolding eq .
qed

lemma notifyFocusModeViolation_reminder:
  "focusReminders (notifyFocusModeViolation s a now) = focusReminders s"
  "lastNotificationTime (notifyFocusModeViolation s a now) = lastNotificationTime s"
  "isDesktopApp (notifyFocusModeViolation s a now) = isDesktopApp s"
  by (simp_all add: notifyFocusModeViolation_def Let_def emit_def focusReminders_def
      alert_title_differs)

lemma trackAppUsage_reminder:
  "focusReminders (trackAppUsage s t ow now) = focusReminders s"
  "lastNotificationTime (trackAppUsage s t ow now) = lastNotificationTime s"
  "isDesktopApp (trackAppUsage s t ow now) = isDesktopApp s"
proof -
  have f: "focusReminders (notifyAppUsageListeners x) = focusReminders x"
    "lastNotificationTime (notifyAppUsageListeners x) = lastNotificationTime x"
    "isDesktopApp (notifyAppUsageListeners x) = isDesktopApp x" for x
    by (simp_all add: notify_defs focusReminders_def)
  have g: "focusReminders (x\<lparr>appUsageData := d\<rparr>) = focusReminders x" for x d
    by (simp add: focusReminders_def)
  show "focusReminders (trackAppUsage s t ow now) = focusReminders s"
    "lastNotificationTime (trackAppUsage s t ow now) = lastNotificationTime s"
    "isDesktopApp (trackAppUsage s t ow now) = isDesktopApp s"
    by (simp_all add: trackAppUsage_def Let_def f g notifyFocusModeViolation_reminder
        split: option.splits)
qed

lemma step_reminder:
  assumes "isDesktopApp s"
  shows "(focusReminders s < focusReminders (step s e) \<longrightarrow>
            notificationCooldown < clock e - lastNotificationTime s
            \<and> lastNotificationTime (step s e) = clock e)
       \<and> (\<not> focusReminders s < focusReminders (step s e) \<longrightarrow>
            lastNotificationTime (step s e) = lastNotificationTime s)
       \<and> isDesktopApp (step s e)"
proof (cases e)
  case (Activity title owner now)
  have l: "focusReminders (x\<lparr>lastActivityTime := n\<rparr>) = focusReminders x" for x n
    by (simp add: focusReminders_def)
  from handleRealWindowSwitch_reminder[OF assms, of title now] show ?thesis
    by (simp add: Activity activeWindowChanged_def Let_def l trackAppUsage_reminder)
next
  case (IdleCheck now)
  then show ?thesis using assms by (simp add: idleCheck_def Let_def focusReminders_def)
next
  case (Tick now)
  then show ?thesis using assms
    by (simp add: updateScreenTime_def Let_def focusReminders_def notify_defs)
next
  case (SwitchTimeout now)
  then show ?thesis using assms
    by (simp add: switchTimerFired_def focusReminders_def split: option.splits)
next
  case (DailyReset now)
  then show ?thesis using assms
    by (simp add: resetDailyStats_def focusReminders_def notify_defs)
next
  case (SetUser userId now)
  then show ?thesis using assms by simp
qed

lemma streakTimes_cooldown:
  "isDesktopApp s \<Longrightarrow>
     (\<forall>t\<in>set (streakTimes s es). notificationCooldown < t - lastNotificationTime s)
     \<and> sorted_wrt (\<lambda>a b. notificationCooldown < b - a) (streakTimes s es)"
proof (induction es arbitrary: s)
  case Nil
  then show ?case by simp
next
  case (Cons e es)
  note st = step_reminder[OF Cons.prems, of e]
  from st have d: "isDesktopApp (step s e)" by blast
  note ih = Cons.IH[OF d]
  show ?case
  proof (cases "focusReminders s < focusReminders (step s e)")
    case True
    with st have c: "notificationCooldown < clock e - lastNotificationTime s"
      and l: "lastNotificationTime (step s e) = clock e" by blast+
    have pos: "0 < notificationCooldown" by (simp add: notificationCooldown_def)
    from ih l have later: "\<forall>t\<in>set (streakTimes (step s e) es). notificationCooldown < t - clock e"
      by simp
    with c pos have "\<forall>t\<in>set (streakTimes (step s e) es).
        notificationCooldown < t - lastNotificationTime s" by fastforce
    with True c later ih show ?thesis by simp
  next
    case False
    with st have "lastNotificationTime (step s e) = lastNotificationTime s" by blast
    with False ih show ?thesis by simp
  qed
qed


lemma trackAppUsage_score:
  "focusScore (trackAppUsage s t ow now) = focusScore s"
  "distractionCount (trackAppUsage s t ow now) = distractionCount s"
proof -
  have v: "focusScore (notifyFocusModeViolation x a n) = focusScore x"
    "distractionCount (notifyFocusModeViolation x a n) = distractionCount x" for x a n
    by (simp_all add: notifyFocusModeViolation_def Let_def emit_def)
  show "focusScore (trackAppUsage s t ow now) = focusScore s"
    "distractionCount (trackAppUsage s t ow now) = distractionCount s"
    by (simp_all add: trackAppUsage_def Let_def notify_defs v split: option.splits)
qed

lemma handleWindowSwitch_scoreInvariant:
  assumes "scoreInvariant s"
  shows "scoreInvariant (handleWindowSwitch s w now)"
proof -
  consider (same) "lastActiveWindow s = Some w"
    | (below) "lastActiveWindow s \<noteq> Some w" "windowSwitches s + 1 < switchThreshold"
    | (cooldown) "lastActiveWindow s \<noteq> Some w" "switchThreshold \<le> windowSwitches s + 1"
        "now - lastNotificationTime s \<le> notificationCooldown"
    | (emits) "lastActiveWindow s \<noteq> Some w" "switchThreshold \<le> windowSwitches s + 1"
        "notificationCooldown < now - lastNotificationTime s"
    by linarith
  then show ?thesis
  proof cases
    case same
    then show ?thesis using assms by (simp add: handleWindowSwitch_same)
  next
    case below
    then show ?thesis using assms by (simp add: handleWindowSwitch_below scoreInvariant_def)
  next
    case cooldown
    then show ?thesis using assms by (simp add: handleWindowSwitch_cooldown scoreInvariant_def)
  next
    case emits
    then show ?thesis by (simp add: handleWindowSwitch_emits scoreInvariant_def)
  qed
qed

lemma step_scoreInvariant:
  assumes "scoreInvariant s"
  shows "scoreInvariant (step s e)"
proof (cases e)
  case (Activity title owner now)
  have "scoreInvariant (handleRealWindowSwitch s title now)"
  proof (cases "now - lastWindowSwitchTime s > 2000")
    case True
    have "scoreInvariant (emit [DispatchWindowChanged title]
        (s\<lparr>recentSwitches := recentSwitches s + 1, lastWindowSwitchTime := now\<rparr>))"
      using assms by (simp add: scoreInvariant_def emit_def)
    then show ?thesis using True
      by (simp add: handleRealWindowSwitch_def Let_def handleWindowSwitch_scoreInvariant)
  next
    case False
    then show ?thesis using assms
      by (simp add: handleRealWindowSwitch_def Let_def handleWindowSwitch_scoreInvariant)
  qed
  then show ?thesis
    by (simp add: Activity activeWindowChanged_def Let_def scoreInvariant_def
        trackAppUsage_score)
next
  case (IdleCheck now)
  then show ?thesis using assms by (simp add: idleCheck_def Let_def scoreInvariant_def)
next
  case (Tick now)
  then show ?thesis using assms
    by (simp add: updateScreenTime_def Let_def scoreInvariant_def notify_defs)
next
  case (SwitchTimeout now)
  then show ?thesis using assms
    by (simp add: switchTimerFired_def scoreInvariant_def split: option.splits)
next
  case (DailyReset now)
  then show ?thesis by (simp add: resetDailyStats_def scoreInvariant_def notify_defs)
next
  case (SetUser userId now)
  then show ?thesis using assms by simp
qed

lemma streak_titles:
  "js ''A'' \<noteq> js ''B''" "js ''B'' \<noteq> js ''C''" "js ''C'' \<noteq> js ''A''"
  "js ''B'' \<noteq> js ''A''" "js ''C'' \<noteq> js ''B''" "js ''A'' \<noteq> js ''C''"
  "js ''A'' \<noteq> js ''Unknown''" "js ''B'' \<noteq> js ''Unknown''" "js ''C'' \<noteq> js ''Unknown''"
  "extractAppName (js ''A'') = js ''A''" "extractAppName (js ''B'') = js ''B''"
  "extractAppName (js ''C'') = js ''C''"
  "determineAppType (js ''A'') = productive" "determineAppType (js ''B'') = productive"
  "determineAppType (js ''C'') = productive"
  by (simp_all add: eval_title determineAppType_def toLowerCase_def lowerUnit_def)

lemma streakTimes_streakTrace: "streakTimes streakService streakTrace = [202000, 402000]"
  by (simp add: streakTrace_def streakService_def newService_fields focusReminders_def
      activeWindowChanged_def handleRealWindowSwitch_def handleWindowSwitch_def
      trackAppUsage_def ownerOrUnknown_def streak_titles Let_def notify_defs
      notifyFocusNeeded_def switchThreshold_def switchTimeframe_def notificationCooldown_def
      idleThreshold_def)


lemma two_switches:
  "handleWindowSwitches streakService [(js ''A'', 200000), (js ''B'', 201000)]
     = streakService\<lparr>lastActiveWindow := Some (js ''B''), windowSwitches := 2,
         switchTimer := Some 231000\<rparr>"
  by (simp add: streakService_def newService_fields handleWindowSwitch_def Let_def
      streak_titles switchThreshold_def switchTimeframe_def)

lemma handleWindowSwitch_U_effects:
  "effects (handleWindowSwitch_U s w now) = effects s"
  "distractionCount (handleWindowSwitch_U s w now) = distractionCount s"
  "focusScore (handleWindowSwitch_U s w now) = focusScore s"
  "lastNotificationTime (handleWindowSwitch_U s w now) = lastNotificationTime s"
  by (simp_all add: handleWindowSwitch_U_def)

lemma createService_score:
  "focusScore (createService desktop stored t0)
     = (case stored of
          None \<Rightarrow> 100
        | Some b \<Rightarrow>
            (if t0 - persisted_timestamp b < twentyFourHours
             then (if persisted_focusScore b = 0 then 100 else persisted_focusScore b)
             else 100))"
  "distractionCount (createService desktop stored t0)
     = (case stored of
          None \<Rightarrow> 0
        | Some b \<Rightarrow>
            (if t0 - persisted_timestamp b < twentyFourHours
             then persisted_distractionCount b else 0))"
  by (simp_all add: createService_def loadPersistedData_def initialFields_def
      initializeScreenTimeTracking_def Let_def split: option.splits)

lemma restartedService_score:
  "focusScore restartedService = 100" "distractionCount restartedService = 20"
  "lastActiveWindow restartedService = None" "windowSwitches restartedService = 0"
  "lastNotificationTime restartedService = 0"
  by (simp_all add: restartedService_def exhaustedService_def persistData_def
      newService_fields createService_def loadPersistedData_def initialFields_def
      initializeScreenTimeTracking_def Let_def twentyFourHours_def)

lemma three_switches_emit:
  assumes "lastActiveWindow s = None" "windowSwitches s = 0" "lastNotificationTime s = 0"
  shows "focusScore (handleWindowSwitches s
           [(js ''A'', 200000), (js ''B'', 201000), (js ''C'', 202000)])
         = max 0 (100 - (distractionCount s + 1) * 5)"
    and "distractionCount (handleWindowSwitches s
           [(js ''A'', 200000), (js ''B'', 201000), (js ''C'', 202000)])
         = distractionCount s + 1"
  using assms
  by (simp_all add: handleWindowSwitch_def Let_def streak_titles switchThreshold_def
      switchTimeframe_def notificationCooldown_def notifyFocusNeeded_def notify_defs)

text \<open>
  C3, as the code has it. In the variant with the streak detector: a change to the
  window that is already active does nothing. Otherwise the switch counter goes up by
  one and the 30-second timeout, whose expiry zeroes the counter, is armed again. When
  the counter reaches the threshold 3 and more than 180 seconds have passed since the
  last signal, exactly one signal is emitted (one native notification on the desktop,
  one call of each message listener), the distraction count goes up by one, the focus
  score is set to 100 minus 5 times the count, not below 0, and the counter is reset;
  that score is the previous one minus 5, not below 0, whenever the previous score was
  the one that the count gives. The score is the one that the count gives in a service
  built on an empty or outdated storage, or on stored data whose score is not zero and
  agrees with its count, and every step keeps it so. When the threshold is reached
  within the cooldown, nothing is emitted and the counter is reset. Along every run,
  any two signals are more than 180 seconds apart. The user-isolated variant only
  counts: a genuine switch moves the counter up by one and arms the timeout, and
  nothing is ever emitted.
\<close>

theorem distraction_streak:
  "(lastActiveWindow s = Some w \<longrightarrow> handleWindowSwitch s w now = s)
   \<and> (lastActiveWindow s \<noteq> Some w \<and> windowSwitches s + 1 < switchThreshold \<longrightarrow>
        windowSwitches (handleWindowSwitch s w now) = windowSwitches s + 1
        \<and> switchTimer (handleWindowSwitch s w now) = Some (now + switchTimeframe)
        \<and> effects (handleWindowSwitch s w now) = effects s
        \<and> distractionCount (handleWindowSwitch s w now) = distractionCount s
        \<and> focusScore (handleWindowSwitch s w now) = focusScore s
        \<and> lastNotificationTime (handleWindowSwitch s w now) = lastNotificationTime s)
   \<and> (lastActiveWindow s \<noteq> Some w \<and> switchThreshold \<le> windowSwitches s + 1 \<and>
        notificationCooldown < now - lastNotificationTime s \<longrightarrow>
        effects (handleWindowSwitch s w now)
          = effects s
            @ (if isDesktopApp s
               then [SendNative (js ''Focus Reminder'') focusNeededMessage None] else [])
            @ map (\<lambda>listener. CallMessage listener focusNeededMessage True) (listeners s)
            @ map (\<lambda>listener. CallFocusScore listener
                     (focusScore (handleWindowSwitch s w now))
                     (distractionCount (handleWindowSwitch s w now)))
                (focusScoreUpdateListeners s)
        \<and> distractionCount (handleWindowSwitch s w now) = distractionCount s + 1
        \<and> focusScore (handleWindowSwitch s w now)
            = max 0 (100 - distractionCount (handleWindowSwitch s w now) * 5)
        \<and> (scoreInvariant s \<longrightarrow>
             focusScore (handleWindowSwitch s w now) = max 0 (focusScore s - 5))
        \<and> windowSwitches (handleWindowSwitch s w now) = 0
        \<and> lastNotificationTime (handleWindowSwitch s w now) = now)
   \<and> (lastActiveWindow s \<noteq> Some w \<and> switchThreshold \<le> windowSwitches s + 1 \<and>
        now - lastNotificationTime s \<le> notificationCooldown \<longrightarrow>
        effects (handleWindowSwitch s w now) = effects s
        \<and> distractionCount (handleWindowSwitch s w now) = distractionCount s
        \<and> focusScore (handleWindowSwitch s w now) = focusScore s
        \<and> windowSwitches (handleWindowSwitch s w now) = 0
        \<and> lastNotificationTime (handleWindowSwitch s w now) = lastNotificationTime s)
   \<and> (switchTimer s = Some deadline \<and> deadline \<le> now \<longrightarrow>
        windowSwitches (switchTimerFired s now) = 0)
   \<and> (isDesktopApp s \<longrightarrow>
        sorted_wrt (\<lambda>a b. notificationCooldown < b - a) (streakTimes s es)
        \<and> (\<forall>t\<in>set (streakTimes s es). notificationCooldown < t - lastNotificationTime s))
   \<and> (scoreInvariant s \<longrightarrow> scoreInvariant (step s e))
   \<and> scoreInvariant (newService desktop t0)
   \<and> (stored = None \<or>
        (\<exists>b. stored = Some b \<and>
           (twentyFourHours \<le> t0 - persisted_timestamp b \<or>
            (persisted_focusScore b \<noteq> 0 \<and>
             persisted_focusScore b = max 0 (100 - persisted_distractionCount b * 5))))
        \<longrightarrow> scoreInvariant (createService desktop stored t0))
   \<and> (lastActiveWindow s = Some w \<longrightarrow> handleWindowSwitch_U s w now = s)
   \<and> (lastActiveWindow s \<noteq> Some w \<longrightarrow>
        handleWindowSwitch_U s w now
          = s\<lparr>lastActiveWindow := Some w, windowSwitches := windowSwitches s + 1,
               switchTimer := Some (now + switchTimeframe)\<rparr>)
   \<and> effects (handleWindowSwitch_U s w now) = effects s"
proof -
  have a: "handleWindowSwitch s w now = s" if "lastActiveWindow s = Some w"
    using that by (rule handleWindowSwitch_same)
  have b: "windowSwitches (handleWindowSwitch s w now) = windowSwitches s + 1
        \<and> switchTimer (handleWindowSwitch s w now) = Some (now + switchTimeframe)
        \<and> effects (handleWindowSwitch s w now) = effects s
        \<and> distractionCount (handleWindowSwitch s w now) = distractionCount s
        \<and> focusScore (handleWindowSwitch s w now) = focusScore s
        \<and> lastNotificationTime (handleWindowSwitch s w now) = lastNotificationTime s"
    if "lastActiveWindow s \<noteq> Some w" "windowSwitches s + 1 < switchThreshold"
    by (simp add: handleWindowSwitch_below[OF that])
  have c: "effects (handleWindowSwitch s w now)
          = effects s
            @ (if isDesktopApp s
               then [SendNative (js ''Focus Reminder'') focusNeededMessage None] else [])
            @ map (\<lambda>listener. CallMessage listener focusNeededMessage True) (listeners s)
            @ map (\<lambda>listener. CallFocusScore listener
                     (focusScore (handleWindowSwitch s w now))
                     (distractionCount (handleWindowSwitch s w now)))
                (focusScoreUpdateListeners s)
        \<and> distractionCount (handleWindowSwitch s w now) = distractionCount s + 1
        \<and> focusScore (handleWindowSwitch s w now)
            = max 0 (100 - distractionCount (handleWindowSwitch s w now) * 5)
        \<and> (scoreInvariant s \<longrightarrow>
             focusScore (handleWindowSwitch s w now) = max 0 (focusScore s - 5))
        \<and> windowSwitches (handleWindowSwitch s w now) = 0
        \<and> lastNotificationTime (handleWindowSwitch s w now) = now"
    if "lastActiveWindow s \<noteq> Some w" "switchThreshold \<le> windowSwitches s + 1"
       "notificationCooldown < now - lastNotificationTime s"
    by (auto simp add: handleWindowSwitch_emits[OF that] scoreInvariant_def)
  have d: "effects (handleWindowSwitch s w now) = effects s
        \<and> distractionCount (handleWindowSwitch s w now) = distractionCount s
        \<and> focusScore (handleWindowSwitch s w now) = focusScore s
        \<and> windowSwitches (handleWindowSwitch s w now) = 0
        \<and> lastNotificationTime (handleWindowSwitch s w now) = lastNotificationTime s"
    if "lastActiveWindow s \<noteq> Some w" "switchThreshold \<le> windowSwitches s + 1"
       "now - lastNotificationTime s \<le> notificationCooldown"
    by (simp add: handleWindowSwitch_cooldown[OF that])
  have e: "windowSwitches (switchTimerFired s now) = 0"
    if "switchTimer s = Some deadline" "deadline \<le> now"
    using that by (simp add: switchTimerFired_def)
  have f: "sorted_wrt (\<lambda>a b. notificationCooldown < b - a) (streakTimes s es)
        \<and> (\<forall>t\<in>set (streakTimes s es). notificationCooldown < t - lastNotificationTime s)"
    if "isDesktopApp s"
    using streakTimes_cooldown[OF that, of es] by blast
  have g: "scoreInvariant (step s e)" if "scoreInvariant s"
    using that by (rule step_scoreInvariant)
  have h: "scoreInvariant (newService desktop t0)"
    by (simp add: scoreInvariant_def newService_fields)
  have i: "scoreInvariant (createService desktop stored t0)"
    if "stored = None \<or>
        (\<exists>b. stored = Some b \<and>
           (twentyFourHours \<le> t0 - persisted_timestamp b \<or>
            (persisted_focusScore b \<noteq> 0 \<and>
             persisted_focusScore b = max 0 (100 - persisted_distractionCount b * 5))))"
    using that by (auto simp add: scoreInvariant_def createService_score)
  have j: "handleWindowSwitch_U s w now = s" if "lastActiveWindow s = Some w"
    using that by (simp add: handleWindowSwitch_U_def)
  have k: "handleWindowSwitch_U s w now
          = s\<lparr>lastActiveWindow := Some w, windowSwitches := windowSwitches s + 1,
               switchTimer := Some (now + switchTimeframe)\<rparr>"
    if "lastActiveWindow s \<noteq> Some w"
    using that by (simp add: handleWindowSwitch_U_def)
  have l: "effects (handleWindowSwitch_U s w now) = effects s"
    by (rule handleWindowSwitch_U_effects)
  show ?thesis
    apply (intro conjI impI)
    using a b c d e f g h i j k l by blast+
qed


theorem distraction_streak_witness:
  "effects (handleWindowSwitch
       (handleWindowSwitches streakService [(js ''A'', 200000), (js ''B'', 201000)])
       (js ''C'') 202000)
     = [SendNative (js ''Focus Reminder'') focusNeededMessage None,
        CallMessage 1 focusNeededMessage True]
   \<and> distractionCount (handleWindowSwitch
       (handleWindowSwitches streakService [(js ''A'', 200000), (js ''B'', 201000)])
       (js ''C'') 202000) = 1
   \<and> focusScore (handleWindowSwitch
       (handleWindowSwitches streakService [(js ''A'', 200000), (js ''B'', 201000)])
       (js ''C'') 202000) = 95
   \<and> windowSwitches (handleWindowSwitch
       (handleWindowSwitches streakService [(js ''A'', 200000), (js ''B'', 201000)])
       (js ''C'') 202000) = 0
   \<and> streakTimes streakService streakTrace = [202000, 402000]
   \<and> sorted_wrt (\<lambda>a b. notificationCooldown < b - a) (streakTimes streakService streakTrace)
   \<and> windowSwitches (handleWindowSwitch_U streakService (js ''A'') 200000) = 1
   \<and> scoreInvariant (createService True (systemTrayData (persistData streakService 1000)) 2000)"
proof -
  define s2 where "s2 = handleWindowSwitches streakService [(js ''A'', 200000), (js ''B'', 201000)]"
  have s2: "s2 = streakService\<lparr>lastActiveWindow := Some (js ''B''), windowSwitches := 2,
         switchTimer := Some 231000\<rparr>"
    unfolding s2_def by (rule two_switches)
  have h: "lastActiveWindow s2 \<noteq> Some (js ''C'') \<and> switchThreshold \<le> windowSwitches s2 + 1 \<and>
        notificationCooldown < 202000 - lastNotificationTime s2"
    by (simp add: s2 streakService_def newService_fields streak_titles switchThreshold_def
        notificationCooldown_def)
  have i: "scoreInvariant s2"
    by (simp add: s2 streakService_def newService_fields scoreInvariant_def)
  have f: "effects s2 = []" "isDesktopApp s2" "listeners s2 = [1]"
    "focusScoreUpdateListeners s2 = []" "distractionCount s2 = 0" "focusScore s2 = 100"
    by (simp_all add: s2 streakService_def newService_fields)
  have d: "isDesktopApp streakService" by (simp add: streakService_def newService_fields)
  from distraction_streak[where s = s2 and w = "js ''C''" and now = 202000] h i f
  have 1: "effects (handleWindowSwitch s2 (js ''C'') 202000)
     = [SendNative (js ''Focus Reminder'') focusNeededMessage None,
        CallMessage 1 focusNeededMessage True]
   \<and> distractionCount (handleWindowSwitch s2 (js ''C'') 202000) = 1
   \<and> focusScore (handleWindowSwitch s2 (js ''C'') 202000) = 95
   \<and> windowSwitches (handleWindowSwitch s2 (js ''C'') 202000) = 0"
    by simp
  from distraction_streak[where s = streakService and es = streakTrace] d
  have 2: "sorted_wrt (\<lambda>a b. notificationCooldown < b - a) (streakTimes streakService streakTrace)"
    by blast
  have u: "lastActiveWindow streakService \<noteq> Some (js ''A'')" "windowSwitches streakService = 0"
    by (simp_all add: streakService_def newService_fields)
  from distraction_streak[where s = streakService and w = "js ''A''" and now = 200000] u
  have 3: "windowSwitches (handleWindowSwitch_U streakService (js ''A'') 200000) = 1"
    by simp
  define b where "b = \<lparr> persisted_screenTimeToday = 0, persisted_focusScore = 100,
      persisted_distractionCount = 0, persisted_appUsageData = [],
      persisted_focusModeWhitelist = Some [], persisted_isFocusMode = Some False,
      persisted_dimInsteadOfBlock = Some True, persisted_timestamp = 1000 \<rparr>"
  have st: "systemTrayData (persistData streakService 1000) = Some b"
    by (simp add: persistData_def streakService_def newService_fields appUsageArray_def
        b_def Let_def)
  have hb: "persisted_focusScore b \<noteq> 0 \<and>
      persisted_focusScore b = max 0 (100 - persisted_distractionCount b * 5)"
    by (simp add: b_def)
  from distraction_streak[where stored = "systemTrayData (persistData streakService 1000)"
      and desktop = True and ?t0.0 = 2000] st hb
  have 4: "scoreInvariant
      (createService True (systemTrayData (persistData streakService 1000)) 2000)"
    by blast
  from 1 2 3 4 streakTimes_streakTrace show ?thesis unfolding s2_def by blast
qed

text \<open>
  C3 as the specification words it has every emission take 5 off the score, and a signal
  in both variants. A service with twenty signals behind it has the score 0; the
  constructor restores the stored 0 as 100, with the count 20, and the next signal takes
  the score from 100 to 0. In the user-isolated variant three switches within two
  seconds leave the counter at 3 and nothing emitted.
\<close>

theorem streak_variants_counterexample:
  "scoreInvariant exhaustedService
   \<and> focusScore restartedService = 100
   \<and> distractionCount restartedService = 20
   \<and> focusScore (handleWindowSwitches restartedService
        [(js ''A'', 200000), (js ''B'', 201000), (js ''C'', 202000)]) = 0
   \<and> distractionCount (handleWindowSwitches restartedService
        [(js ''A'', 200000), (js ''B'', 201000), (js ''C'', 202000)]) = 21
   \<and> windowSwitches (handleWindowSwitches_U streakService
        [(js ''A'', 200000), (js ''B'', 201000), (js ''C'', 202000)]) = 3
   \<and> effects (handleWindowSwitches_U streakService
        [(js ''A'', 200000), (js ''B'', 201000), (js ''C'', 202000)]) = []"
proof -
  have 1: "scoreInvariant exhaustedService"
    by (simp add: scoreInvariant_def exhaustedService_def newService_fields)
  have 2: "focusScore (handleWindowSwitches restartedService
        [(js ''A'', 200000), (js ''B'', 201000), (js ''C'', 202000)]) = 0"
    "distractionCount (handleWindowSwitches restartedService
        [(js ''A'', 200000), (js ''B'', 201000), (js ''C'', 202000)]) = 21"
    using three_switches_emit[OF restartedService_score(3,4,5)]
    by (simp_all add: restartedService_score)
  have 3: "windowSwitches (handleWindowSwitches_U streakService
        [(js ''A'', 200000), (js ''B'', 201000), (js ''C'', 202000)]) = 3"
    "effects (handleWindowSwitches_U streakService
        [(js ''A'', 200000), (js ''B'', 201000), (js ''C'', 202000)]) = []"
    by (simp_all add: handleWindowSwitch_U_def streak_titles streakService_def
        newService_fields)
  from 1 2 3 restartedService_score(1,2) show ?thesis by simp
qed

section \<open>Persistence per user\<close>

lemma update_absent:
  "k \<notin> fst ` set al \<Longrightarrow> AList.update k v al = al @ [(k, v)]"
  by (induction al) auto

lemma fold_restoreApp:
  "distinct (map fst acc @ map fst xs) \<Longrightarrow>
   fold (restoreApp now) xs acc
     = acc @ map (\<lambda>(n, t, ty, la). (n, \<lparr>time = t, type = ty,
                    lastActiveTime = (if la = 0 then now else la), sessionStart = Some now\<rparr>))
               (filter (\<lambda>e. fst e \<noteq> []) xs)"
proof (induction xs arbitrary: acc)
  case Nil
  then show ?case by simp
next
  case (Cons x xs)
  obtain n t ty la where x: "x = (n, t, ty, la)" by (cases x) auto
  show ?case
  proof (cases "n = []")
    case True
    from Cons.prems have "distinct (map fst acc @ map fst xs)" by (simp add: x)
    from Cons.IH[OF this] True show ?thesis by (simp add: x restoreApp_def)
  next
    case False
    let ?d = "\<lparr>time = t, type = ty, lastActiveTime = (if la = 0 then now else la),
               sessionStart = Some now\<rparr>"
    from Cons.prems have nin: "n \<notin> fst ` set acc" by (auto simp add: x)
    then have r: "restoreApp now x acc = acc @ [(n, ?d)]"
      using False by (simp add: x restoreApp_def update_absent)
    from Cons.prems have "distinct (map fst (acc @ [(n, ?d)]) @ map fst xs)"
      by (auto simp add: x)
    from Cons.IH[OF this] r False show ?thesis by (simp add: x)
  qed
qed

lemma restore_appUsageArray:
  assumes "distinct (map fst d)"
  shows "fold (restoreApp now)
           (map (\<lambda>(name, d). (name, time d, type d, lastActiveTime d)) d) []
         = map (\<lambda>(n, d). (n, restoredRecord now d)) (filter (\<lambda>(n, d). n \<noteq> []) d)"
proof -
  let ?xs = "map (\<lambda>(name, d). (name, time d, type d, lastActiveTime d)) d"
  have fst: "map fst ?xs = map fst d" by (induction d) auto
  have "distinct (map fst [] @ map fst ?xs)" unfolding fst using assms by simp
  from fold_restoreApp[OF this, of now]
  have "fold (restoreApp now) ?xs []
      = map (\<lambda>(n, t, ty, la). (n, \<lparr>time = t, type = ty,
                    lastActiveTime = (if la = 0 then now else la), sessionStart = Some now\<rparr>))
               (filter (\<lambda>e. fst e \<noteq> []) ?xs)" by simp
  also have "\<dots> = map (\<lambda>(n, d). (n, restoredRecord now d)) (filter (\<lambda>(n, d). n \<noteq> []) d)"
    by (induction d) (auto simp add: restoredRecord_def)
  finally show ?thesis .
qed

lemma uniqueInOrder_set: "set (uniqueInOrder xs) = set xs" "distinct (uniqueInOrder xs)"
  by (simp_all add: uniqueInOrder_def)

lemma persistUserData_blob:
  assumes "currentUserId s = Some u" "u \<noteq> []" "hasWindow s"
  shows "localStorage (persistUserData s t0) (userDataKey u)
         = Some \<lparr> saved_screenTimeToday = screenTimeToday s,
                  saved_appUsageData = appUsageArray s,
                  saved_focusModeWhitelist = focusModeWhitelist s,
                  saved_isFocusMode = isFocusMode s,
                  saved_dimInsteadOfBlock = dimInsteadOfBlock s,
                  saved_timestamp = t0 \<rparr>"
  using assms by (simp add: persistUserData_def Let_def)

lemma resetUserData_fields:
  "hasWindow (resetUserData x) = hasWindow x"
  "localStorage (resetUserData x) = localStorage x"
  "appUsageData (resetUserData x) = []"
  by (simp_all add: resetUserData_def notify_defs)


lemma loadUserData_fresh:
  assumes "hasWindow y"
    and "localStorage y (userDataKey u) = Some b" and "t1 - saved_timestamp b < twentyFourHours"
  shows "loadUserData y u t1
         = y\<lparr>screenTimeToday := saved_screenTimeToday b,
              focusModeWhitelist :=
                uniqueInOrder (saved_focusModeWhitelist b @ DEFAULT_WHITELIST_APPS),
              isFocusMode := saved_isFocusMode b,
              dimInsteadOfBlock := saved_dimInsteadOfBlock b,
              appUsageData := fold (restoreApp t1) (saved_appUsageData b) (appUsageData y)\<rparr>"
  using assms by (simp add: loadUserData_def Let_def)

lemma loadUserData_stale:
  assumes "localStorage y (userDataKey u) = Some b" and "twentyFourHours \<le> t1 - saved_timestamp b"
  shows "loadUserData y u t1 = y"
  using assms by (simp add: loadUserData_def Let_def)

lemma loadUserData_absent:
  assumes "localStorage y (userDataKey u) = None"
  shows "loadUserData y u t1 = y"
  using assms by (simp add: loadUserData_def)

lemma setCurrentUser_fresh:
  "setCurrentUser (newService True 0) (js ''u1'') 0
     = (newService True 0)\<lparr>currentUserId := Some (js ''u1''),
          focusModeWhitelist := DEFAULT_WHITELIST_APPS\<rparr>"
  by (simp add: setCurrentUser_def resetUserData_def loadUserData_def notify_defs
      newService_fields)

lemma untitledService_eq:
  "untitledService
     = (newService True 0)\<lparr>currentUserId := Some (js ''u1''),
          focusModeWhitelist := DEFAULT_WHITELIST_APPS,
          lastActiveWindow := Some [], windowSwitches := 1,
          switchTimer := Some 31000, lastActivityTime := 1000,
          appUsageData := [([], \<lparr>time = 0, type = productive, lastActiveTime = 1000,
                                 sessionStart = Some 1000\<rparr>)]\<rparr>"
proof -
  have d: "determineAppType [] = productive"
    by (simp add: determineAppType_def toLowerCase_def js_def)
  show ?thesis
    unfolding untitledService_def setCurrentUser_fresh
    by (simp add: activeWindowChanged_U_def handleRealWindowSwitch_U_def
        handleWindowSwitch_U_def trackAppUsage_U_def ownerOrUnknown_def extractAppName_def d
        Let_def notify_defs newService_fields switchTimeframe_def)
qed

text \<open>
  C6, as the code has it (user-isolated variant). Let the state of user \<open>u\<close> be saved at
  time \<open>t0\<close>, and let it be loaded at time \<open>t1\<close> into a freshly reset state whose
  storage holds that blob. If the blob is younger than 24 hours, the load restores the
  screen time, the focus-mode flag and the dim option as saved, the whitelist as the
  saved one united with the default-exempt set (without repetition), and every usage
  record whose identity is not empty, in order, with its time and type (a last-active
  time of zero becomes the time of the load, and the session starts at the load); a
  usage record with the empty identity is not restored. If the blob is 24 hours old or
  older, or if there is no blob, the load changes nothing, so that the defaults of the
  reset stay in place.
\<close>

theorem persist_load_roundtrip:
  assumes "currentUserId s = Some u" and "u \<noteq> []" and "hasWindow s"
    and "distinct (map fst (appUsageData s))"
    and "hasWindow x"
    and "localStorage x (userDataKey u) = localStorage (persistUserData s t0) (userDataKey u)"
  shows "(t1 - t0 < twentyFourHours \<longrightarrow>
            loadUserData (resetUserData x) u t1
              = (resetUserData x)\<lparr>
                   screenTimeToday := screenTimeToday s,
                   focusModeWhitelist := focusModeWhitelist (loadUserData (resetUserData x) u t1),
                   isFocusMode := isFocusMode s,
                   dimInsteadOfBlock := dimInsteadOfBlock s,
                   appUsageData := map (\<lambda>(n, d). (n, restoredRecord t1 d))
                                     (filter (\<lambda>(n, d). n \<noteq> []) (appUsageData s))\<rparr>
          \<and> set (focusModeWhitelist (loadUserData (resetUserData x) u t1))
              = set (focusModeWhitelist s) \<union> set DEFAULT_WHITELIST_APPS
          \<and> distinct (focusModeWhitelist (loadUserData (resetUserData x) u t1)))
       \<and> (twentyFourHours \<le> t1 - t0 \<longrightarrow>
            loadUserData (resetUserData x) u t1 = resetUserData x)
       \<and> (localStorage y (userDataKey u) = None \<longrightarrow> loadUserData y u t1 = y)"
proof -
  let ?b = "\<lparr> saved_screenTimeToday = screenTimeToday s,
                  saved_appUsageData = appUsageArray s,
                  saved_focusModeWhitelist = focusModeWhitelist s,
                  saved_isFocusMode = isFocusMode s,
                  saved_dimInsteadOfBlock = dimInsteadOfBlock s,
                  saved_timestamp = t0 \<rparr>"
  let ?r = "resetUserData x"
  have blob: "localStorage ?r (userDataKey u) = Some ?b"
    using assms(6) persistUserData_blob[OF assms(1-3), of t0]
    by (simp add: resetUserData_fields)
  have win: "hasWindow ?r" using assms(5) by (simp add: resetUserData_fields)
  have fresh: "loadUserData ?r u t1
              = ?r\<lparr>screenTimeToday := screenTimeToday s,
                   focusModeWhitelist := focusModeWhitelist (loadUserData ?r u t1),
                   isFocusMode := isFocusMode s,
                   dimInsteadOfBlock := dimInsteadOfBlock s,
                   appUsageData := map (\<lambda>(n, d). (n, restoredRecord t1 d))
                                     (filter (\<lambda>(n, d). n \<noteq> []) (appUsageData s))\<rparr>
          \<and> set (focusModeWhitelist (loadUserData ?r u t1))
              = set (focusModeWhitelist s) \<union> set DEFAULT_WHITELIST_APPS
          \<and> distinct (focusModeWhitelist (loadUserData ?r u t1))"
    if "t1 - t0 < twentyFourHours"
  proof -
    from that have "t1 - saved_timestamp ?b < twentyFourHours" by simp
    note l = loadUserData_fresh[OF win blob this]
    have usage: "fold (restoreApp t1) (saved_appUsageData ?b) (appUsageData ?r)
        = map (\<lambda>(n, d). (n, restoredRecord t1 d))
            (filter (\<lambda>(n, d). n \<noteq> []) (appUsageData s))"
      using restore_appUsageArray[OF assms(4), of t1]
      by (simp add: resetUserData_fields appUsageArray_def)
    show ?thesis
      unfolding l usage by (simp add: uniqueInOrder_set)
  qed
  have stale: "loadUserData ?r u t1 = ?r" if "twentyFourHours \<le> t1 - t0"
  proof -
    from that have "twentyFourHours \<le> t1 - saved_timestamp ?b" by simp
    from loadUserData_stale[OF blob this] show ?thesis .
  qed
  have absent: "loadUserData y u t1 = y" if "localStorage y (userDataKey u) = None"
    using that by (rule loadUserData_absent)
  from fresh stale absent show ?thesis by blast
qed


theorem persist_load_roundtrip_witness:
  "screenTimeToday (loadUserData (resetUserData (persistUserData savedService 2000))
       (js ''u1'') 3000) = 5000
   \<and> isFocusMode (loadUserData (resetUserData (persistUserData savedService 2000))
       (js ''u1'') 3000)
   \<and> appUsageData (loadUserData (resetUserData (persistUserData savedService 2000))
       (js ''u1'') 3000)
       = [(js ''Notes'', \<lparr>time = 4000, type = productive, lastActiveTime = 1000,
                          sessionStart = Some 3000\<rparr>)]
   \<and> set (focusModeWhitelist (loadUserData (resetUserData (persistUserData savedService 2000))
       (js ''u1'') 3000))
       = set [js ''Notes''] \<union> set DEFAULT_WHITELIST_APPS
   \<and> loadUserData (resetUserData (persistUserData savedService 2000)) (js ''u1'') 86402000
       = resetUserData (persistUserData savedService 2000)"
proof -
  define x where "x = persistUserData savedService 2000"
  have h1: "currentUserId savedService = Some (js ''u1'')"
    and h3: "hasWindow savedService"
    and h4: "distinct (map fst (appUsageData savedService))"
    by (simp_all add: savedService_def newService_fields)
  have h2: "js ''u1'' \<noteq> []" by (simp add: js_def)
  have h5: "hasWindow x"
    by (simp add: x_def persistUserData_def savedService_def newService_fields Let_def h2)
  have h6: "localStorage x (userDataKey (js ''u1''))
      = localStorage (persistUserData savedService 2000) (userDataKey (js ''u1''))"
    by (simp add: x_def)
  have f: "screenTimeToday savedService = 5000" "isFocusMode savedService"
    "focusModeWhitelist savedService = [js ''Notes'']"
    "appUsageData savedService = [(js ''Notes'', \<lparr>time = 4000, type = productive,
        lastActiveTime = 1000, sessionStart = Some 500\<rparr>)]"
    by (simp_all add: savedService_def newService_fields)
  have n: "js ''Notes'' \<noteq> []" by (simp add: js_def)
  note r1 = persist_load_roundtrip[OF h1 h2 h3 h4 h5 h6, of 3000 x]
  have a: "(3000::int) - 2000 < twentyFourHours" by (simp add: twentyFourHours_def)
  from r1 a have eq: "loadUserData (resetUserData x) (js ''u1'') 3000
      = (resetUserData x)\<lparr>
           screenTimeToday := screenTimeToday savedService,
           focusModeWhitelist :=
             focusModeWhitelist (loadUserData (resetUserData x) (js ''u1'') 3000),
           isFocusMode := isFocusMode savedService,
           dimInsteadOfBlock := dimInsteadOfBlock savedService,
           appUsageData := map (\<lambda>(n, d). (n, restoredRecord 3000 d))
                             (filter (\<lambda>(n, d). n \<noteq> []) (appUsageData savedService))\<rparr>"
    and wl: "set (focusModeWhitelist (loadUserData (resetUserData x) (js ''u1'') 3000))
      = set (focusModeWhitelist savedService) \<union> set DEFAULT_WHITELIST_APPS"
    by blast+
  have 1: "screenTimeToday (loadUserData (resetUserData x) (js ''u1'') 3000) = 5000"
    by (subst eq) (simp add: f)
  have 2: "isFocusMode (loadUserData (resetUserData x) (js ''u1'') 3000)"
    by (subst eq) (simp add: f)
  have 3: "appUsageData (loadUserData (resetUserData x) (js ''u1'') 3000)
       = [(js ''Notes'', \<lparr>time = 4000, type = productive, lastActiveTime = 1000,
                          sessionStart = Some 3000\<rparr>)]"
    by (subst eq) (simp add: f n restoredRecord_def)
  have 4: "set (focusModeWhitelist (loadUserData (resetUserData x) (js ''u1'') 3000))
       = set [js ''Notes''] \<union> set DEFAULT_WHITELIST_APPS"
    using wl by (simp add: f)
  note r2 = persist_load_roundtrip[OF h1 h2 h3 h4 h5 h6, of 86402000 x]
  have b: "twentyFourHours \<le> (86402000::int) - 2000" by (simp add: twentyFourHours_def)
  from r2 b have 5: "loadUserData (resetUserData x) (js ''u1'') 86402000 = resetUserData x"
    by blast
  from 1 2 3 4 5 show ?thesis unfolding x_def by blast
qed

text \<open>
  C6 as the specification words it has the round trip reproduce an equivalent
  aggregate. The activity event with an empty title leaves a usage record for the empty
  identity in the ledger of user "u1"; saved at 2000 and loaded at 3000, well within
  24 hours, the ledger comes back empty.
\<close>

theorem empty_identity_record_lost_counterexample:
  "currentUserId untitledService = Some (js ''u1'')
   \<and> appUsageData untitledService
       = [([], \<lparr>time = 0, type = productive, lastActiveTime = 1000,
               sessionStart = Some 1000\<rparr>)]
   \<and> (3000::int) - 2000 < twentyFourHours
   \<and> appUsageData (loadUserData (resetUserData (persistUserData untitledService 2000))
        (js ''u1'') 3000) = []"
proof -
  have u: "js ''u1'' \<noteq> []" by (simp add: js_def)
  show ?thesis
    unfolding untitledService_eq
    by (simp add: persistUserData_def resetUserData_def loadUserData_def notify_defs
        appUsageArray_def restoreApp_def newService_fields Let_def u twentyFourHours_def)
qed

end
